theory Spec2Isabelle
  imports Complex_Main "HOL-Library.Word"
begin

section \<open>Values\<close>

text \<open>
  The scene manager (SceneManager.cpp) and the view manager (ViewManager.cpp) are embedded
  as state-passing functions. Conventions used throughout:
  \<^item> \<open>float\<close> and \<open>double\<close> values are real numbers. Where a value is only stored and passed
    on, a literal denotes its decimal value; where the code computes with them, the rounding
    is written out: as a parameter in \<open>Mouse_Scroll_Callback\<close>, and as rounding to the
    nearest binary32 or binary64 number in the stacked-books loop. \<open>GLuint\<close> is a 32-bit
    word, \<open>int\<close> an integer;
  \<^item> an access outside the array \<open>m_textureIDs\<close> or through a null pointer is undefined
    behaviour in C++; the functions return it as a \<open>fault\<close>, on the left of a sum;
  \<^item> what the program does to its collaborators (the shader manager, the mesh library,
    OpenGL, the console) is recorded as the list of calls made, oldest first;
  \<^item> what the collaborators answer (the image decoder, the texture names OpenGL hands
    out, the GLM matrix functions, the camera class, the keyboard) is an argument or a field
    of the state.
\<close>

type_synonym float = real
type_synonym double = real
type_synonym GLuint = "32 word"

datatype vec2 = vec2 float float
datatype vec3 = vec3 float float float
datatype vec4 = vec4 float float float float

datatype fault = ArrayOverrun | NullPointer

section \<open>The shader manager\<close>

text \<open>
  Modelled from the spec: the ShaderManager class, "a shader-uniform-setting interface (set
  scalar/vector/matrix/sampler by name)". A shader manager is the list of uniform
  assignments it has received, oldest first; the value of a uniform is the one assigned
  last. The type \<open>'m\<close> is GLM's \<open>mat4\<close>.
\<close>

datatype 'm uniform =
    IntValue int
  | BoolValue bool
  | FloatValue float
  | Vec2Value vec2
  | Vec3Value vec3
  | Vec4Value vec4
  | Mat4Value 'm
  | Sampler2DValue int

type_synonym 'm ShaderManager = "(string \<times> 'm uniform) list"

definition setIntValue :: "string \<Rightarrow> int \<Rightarrow> 'm ShaderManager \<Rightarrow> 'm ShaderManager" where
  "setIntValue name v sh = sh @ [(name, IntValue v)]"

definition setBoolValue :: "string \<Rightarrow> bool \<Rightarrow> 'm ShaderManager \<Rightarrow> 'm ShaderManager" where
  "setBoolValue name v sh = sh @ [(name, BoolValue v)]"

definition setFloatValue :: "string \<Rightarrow> float \<Rightarrow> 'm ShaderManager \<Rightarrow> 'm ShaderManager" where
  "setFloatValue name v sh = sh @ [(name, FloatValue v)]"

definition setVec2Value :: "string \<Rightarrow> vec2 \<Rightarrow> 'm ShaderManager \<Rightarrow> 'm ShaderManager" where
  "setVec2Value name v sh = sh @ [(name, Vec2Value v)]"

definition setVec3Value :: "string \<Rightarrow> vec3 \<Rightarrow> 'm ShaderManager \<Rightarrow> 'm ShaderManager" where
  "setVec3Value name v sh = sh @ [(name, Vec3Value v)]"

definition setVec4Value :: "string \<Rightarrow> vec4 \<Rightarrow> 'm ShaderManager \<Rightarrow> 'm ShaderManager" where
  "setVec4Value name v sh = sh @ [(name, Vec4Value v)]"

definition setMat4Value :: "string \<Rightarrow> 'm \<Rightarrow> 'm ShaderManager \<Rightarrow> 'm ShaderManager" where
  "setMat4Value name v sh = sh @ [(name, Mat4Value v)]"

definition setSampler2DValue :: "string \<Rightarrow> int \<Rightarrow> 'm ShaderManager \<Rightarrow> 'm ShaderManager" where
  "setSampler2DValue name v sh = sh @ [(name, Sampler2DValue v)]"

definition uniform_value :: "'m ShaderManager \<Rightarrow> string \<Rightarrow> 'm uniform option" where
  "uniform_value sh name = map_of (rev sh) name"

text \<open>The names of the uniforms, SceneManager.cpp lines 22 to 26.\<close>

definition g_ModelName :: string where "g_ModelName = ''model''"
definition g_ColorValueName :: string where "g_ColorValueName = ''objectColor''"
definition g_TextureValueName :: string where "g_TextureValueName = ''objectTexture''"
definition g_UseTextureName :: string where "g_UseTextureName = ''bUseTexture''"
definition g_UseLightingName :: string where "g_UseLightingName = ''bUseLighting''"

section \<open>The scene manager's state\<close>

record OBJECT_MATERIAL =
  ambientStrength :: float
  ambientColor :: vec3
  diffuseColor :: vec3
  specularColor :: vec3
  shininess :: float
  tag :: string

record TEXTURE_INFO =
  tag :: string
  ID :: GLuint

text \<open>What \<open>stbi_load\<close> returns for a file that decodes: the sizes and the channel count.\<close>

record stb_image =
  width :: int
  height :: int
  colorChannels :: int

datatype gl_wrap_axis = GL_TEXTURE_WRAP_S | GL_TEXTURE_WRAP_T
datatype gl_filter_kind = GL_TEXTURE_MIN_FILTER | GL_TEXTURE_MAG_FILTER
datatype gl_format = GL_RGB | GL_RGBA

text \<open>The OpenGL calls of SceneManager.cpp, each with the arguments that vary.\<close>

datatype gl_call =
    GenTextures GLuint
  | BindTexture GLuint
  | TexParameteri_wrap gl_wrap_axis
  | TexParameteri_filter gl_filter_kind
  | TexImage2D gl_format int int
  | GenerateMipmap
  | ActiveTexture int

datatype mesh_call =
    LoadPlaneMesh | LoadBoxMesh | LoadCylinderMesh | LoadTorusMesh
  | DrawPlaneMesh | DrawBoxMesh | DrawCylinderMesh | DrawTorusMesh

datatype console_line =
    Successfully_loaded_image string int int int
  | Not_implemented_channels int
  | Could_not_load_image string
  | Switched_to_Perspective_View
  | Switched_to_Orthographic_View

text \<open>
  The state of the view manager: its members and the globals of ViewManager.cpp, lines 21 to
  42. \<open>Camera\<close> is a class outside the two files; the record holds the four members the
  view manager writes, and the rest of the object is the record's extension.
  \<open>window_should_close\<close> is the flag \<open>glfwSetWindowShouldClose\<close> sets.
\<close>

record Camera =
  Position :: vec3
  Front :: vec3
  Up :: vec3
  Zoom :: float

record ('m, 'c) ViewManager =
  m_pShaderManager :: "'m ShaderManager option"
  window_should_close :: bool
  g_pCamera :: "'c Camera_scheme option"
  gLastX :: float
  gLastY :: float
  gFirstMouse :: bool
  gDeltaTime :: float
  gLastFrame :: float
  bOrthographicProjection :: bool
  gMovementSpeed :: float
  view_console :: "console_line list"

text \<open>
  The members of SceneManager, then the world it acts on: the OpenGL calls made so far,
  the texture names OpenGL hands out (\<open>gl_names k\<close> is the name written by the \<open>k\<close>-th call
  of \<open>glGenTextures\<close>, \<open>gl_generated\<close> counts the calls), and the lines printed to
  \<open>std::cout\<close>. \<open>m_textureIDs\<close> is a fixed-capacity array: its length never changes.
\<close>

record 'm SceneManager =
  m_pShaderManager :: "'m ShaderManager option"
  m_basicMeshes :: "mesh_call list"
  m_loadedTextures :: int
  m_textureIDs :: "TEXTURE_INFO list"
  m_objectMaterials :: "OBJECT_MATERIAL list"
  gl_calls :: "gl_call list"
  gl_names :: "nat \<Rightarrow> GLuint"
  gl_generated :: nat
  console :: "console_line list"

definition cout :: "console_line \<Rightarrow> ('m, 'z) SceneManager_scheme \<Rightarrow> ('m, 'z) SceneManager_scheme" where
  "cout l s = s\<lparr>console := console s @ [l]\<rparr>"

definition gl :: "gl_call list \<Rightarrow> ('m, 'z) SceneManager_scheme \<Rightarrow> ('m, 'z) SceneManager_scheme" where
  "gl cs s = s\<lparr>gl_calls := gl_calls s @ cs\<rparr>"

definition glGenTextures :: "('m, 'z) SceneManager_scheme \<Rightarrow> GLuint \<times> ('m, 'z) SceneManager_scheme" where
  "glGenTextures s =
     (let name = gl_names s (gl_generated s)
      in (name, s\<lparr>gl_calls := gl_calls s @ [GenTextures name],
                  gl_generated := Suc (gl_generated s)\<rparr>))"

text \<open>An index is inside the array \<open>m_textureIDs\<close>.\<close>

definition in_array :: "int \<Rightarrow> ('m, 'z) SceneManager_scheme \<Rightarrow> bool" where
  "in_array i s \<longleftrightarrow> 0 \<le> i \<and> i < int (length (m_textureIDs s))"

text \<open>The count is between 0 and the capacity of the array.\<close>

definition registry_ok :: "('m, 'z) SceneManager_scheme \<Rightarrow> bool" where
  "registry_ok s \<longleftrightarrow> 0 \<le> m_loadedTextures s \<and> m_loadedTextures s \<le> int (length (m_textureIDs s))"

section \<open>Loading, binding and regenerating textures\<close>

text \<open>
  \<open>CreateGLTexture\<close>, lines 60 to 124. \<open>stbi_load\<close> is the decoder's answer for each file
  name (\<open>None\<close> is the null pointer). The write at index \<open>m_loadedTextures\<close> has no bounds
  check in the source.
\<close>

definition CreateGLTexture ::
  "(string \<Rightarrow> stb_image option) \<Rightarrow> string \<Rightarrow> string \<Rightarrow> 'm SceneManager \<Rightarrow>
   fault + bool \<times> 'm SceneManager" where
  "CreateGLTexture stbi_load filename tg s =
     (case stbi_load filename of
        Some img \<Rightarrow>
          (let s1 = cout (Successfully_loaded_image filename
                       (width img) (height img) (colorChannels img)) s;
               (textureID, s2) = glGenTextures s1;
               s3 = gl [BindTexture textureID,
                        TexParameteri_wrap GL_TEXTURE_WRAP_S,
                        TexParameteri_wrap GL_TEXTURE_WRAP_T,
                        TexParameteri_filter GL_TEXTURE_MIN_FILTER,
                        TexParameteri_filter GL_TEXTURE_MAG_FILTER] s2;
               uploaded =
                 (if colorChannels img = 3
                  then Some (gl [TexImage2D GL_RGB (width img) (height img)] s3)
                  else if colorChannels img = 4
                  then Some (gl [TexImage2D GL_RGBA (width img) (height img)] s3)
                  else None)
           in case uploaded of
                None \<Rightarrow> Inr (False, cout (Not_implemented_channels (colorChannels img)) s3)
              | Some s4 \<Rightarrow>
                  (let s5 = gl [GenerateMipmap, BindTexture 0] s4
                   in if in_array (m_loadedTextures s5) s5
                      then Inr (True,
                        s5\<lparr>m_textureIDs := (m_textureIDs s5)
                               [nat (m_loadedTextures s5) := \<lparr>tag = tg, ID = textureID\<rparr>],
                           m_loadedTextures := m_loadedTextures s5 + 1\<rparr>)
                      else Inl ArrayOverrun))
      | None \<Rightarrow> Inr (False, cout (Could_not_load_image filename) s))"

text \<open>\<open>BindGLTextures\<close>, lines 132 to 140: the \<open>for\<close> loop from index \<open>i\<close> on.\<close>

function BindGLTextures_for :: "nat \<Rightarrow> 'm SceneManager \<Rightarrow> fault + 'm SceneManager" where
  "BindGLTextures_for i s =
     (if int i < m_loadedTextures s
      then (if in_array (int i) s
            then BindGLTextures_for (i + 1)
                   (gl [ActiveTexture (int i), BindTexture (ID (m_textureIDs s ! i))] s)
            else Inl ArrayOverrun)
      else Inr s)"
  by pat_completeness auto
termination
  by (relation "measure (\<lambda>(i, s). nat (m_loadedTextures s) - i)") (auto simp: gl_def)

declare BindGLTextures_for.simps [simp del]

definition BindGLTextures :: "'m SceneManager \<Rightarrow> fault + 'm SceneManager" where
  "BindGLTextures s = BindGLTextures_for 0 s"

text \<open>
  \<open>DestroyGLTextures\<close>, lines 148 to 154: the loop calls \<open>glGenTextures\<close> on the address of
  each stored \<open>ID\<close>.
\<close>

function DestroyGLTextures_for :: "nat \<Rightarrow> 'm SceneManager \<Rightarrow> fault + 'm SceneManager" where
  "DestroyGLTextures_for i s =
     (if int i < m_loadedTextures s
      then (if in_array (int i) s
            then (let (name, s1) = glGenTextures s
                  in DestroyGLTextures_for (i + 1)
                       (s1\<lparr>m_textureIDs := (m_textureIDs s1)[i := (m_textureIDs s1 ! i)\<lparr>ID := name\<rparr>]\<rparr>))
            else Inl ArrayOverrun)
      else Inr s)"
  by pat_completeness auto
termination
  by (relation "measure (\<lambda>(i, s). nat (m_loadedTextures s) - i)")
     (auto simp: glGenTextures_def Let_def)

declare DestroyGLTextures_for.simps [simp del]

definition DestroyGLTextures :: "'m SceneManager \<Rightarrow> fault + 'm SceneManager" where
  "DestroyGLTextures s = DestroyGLTextures_for 0 s"

section \<open>Lookups by tag\<close>

text \<open>
  \<open>FindTextureID\<close>, lines 162 to 180. The loop state is the source's three locals. The
  stored \<open>ID\<close> is unsigned and the result an \<open>int\<close>: the conversion is \<open>sint\<close>.
\<close>

function FindTextureID_while ::
  "('m, 'z) SceneManager_scheme \<Rightarrow> string \<Rightarrow> int \<Rightarrow> nat \<Rightarrow> bool \<Rightarrow> fault + int" where
  "FindTextureID_while s tg textureID index bFound =
     (if int index < m_loadedTextures s \<and> bFound = False
      then (if in_array (int index) s
            then (if tag (m_textureIDs s ! index) = tg
                  then FindTextureID_while s tg (sint (ID (m_textureIDs s ! index))) index True
                  else FindTextureID_while s tg textureID (index + 1) bFound)
            else Inl ArrayOverrun)
      else Inr textureID)"
  by pat_completeness auto
termination
  by (relation "measure (\<lambda>(s, tg, textureID, index, bFound).
        if bFound then 0 else Suc (nat (m_loadedTextures s) - index))") auto

declare FindTextureID_while.simps [simp del]

definition FindTextureID :: "string \<Rightarrow> ('m, 'z) SceneManager_scheme \<Rightarrow> fault + int" where
  "FindTextureID tg s = FindTextureID_while s tg (- 1) 0 False"

text \<open>\<open>FindTextureSlot\<close>, lines 188 to 206.\<close>

function FindTextureSlot_while ::
  "('m, 'z) SceneManager_scheme \<Rightarrow> string \<Rightarrow> int \<Rightarrow> nat \<Rightarrow> bool \<Rightarrow> fault + int" where
  "FindTextureSlot_while s tg textureSlot index bFound =
     (if int index < m_loadedTextures s \<and> bFound = False
      then (if in_array (int index) s
            then (if tag (m_textureIDs s ! index) = tg
                  then FindTextureSlot_while s tg (int index) index True
                  else FindTextureSlot_while s tg textureSlot (index + 1) bFound)
            else Inl ArrayOverrun)
      else Inr textureSlot)"
  by pat_completeness auto
termination
  by (relation "measure (\<lambda>(s, tg, textureSlot, index, bFound).
        if bFound then 0 else Suc (nat (m_loadedTextures s) - index))") auto

declare FindTextureSlot_while.simps [simp del]

definition FindTextureSlot :: "string \<Rightarrow> ('m, 'z) SceneManager_scheme \<Rightarrow> fault + int" where
  "FindTextureSlot tg s = FindTextureSlot_while s tg (- 1) 0 False"

text \<open>
  \<open>FindMaterial\<close>, lines 214 to 241. The second component of the result is the output
  parameter \<open>material\<close>; the loop copies five fields into it and leaves its tag. After the
  loop the source returns \<open>true\<close>.
\<close>

function FindMaterial_while ::
  "OBJECT_MATERIAL list \<Rightarrow> string \<Rightarrow> OBJECT_MATERIAL \<Rightarrow> nat \<Rightarrow> bool \<Rightarrow> OBJECT_MATERIAL" where
  "FindMaterial_while ms tg material index bFound =
     (if index < length ms \<and> bFound = False
      then (if OBJECT_MATERIAL.tag (ms ! index) = tg
            then FindMaterial_while ms tg
                   (material\<lparr>ambientColor := ambientColor (ms ! index),
                             ambientStrength := ambientStrength (ms ! index),
                             diffuseColor := diffuseColor (ms ! index),
                             specularColor := specularColor (ms ! index),
                             shininess := shininess (ms ! index)\<rparr>) index True
            else FindMaterial_while ms tg material (index + 1) bFound)
      else material)"
  by pat_completeness auto
termination
  by (relation "measure (\<lambda>(ms, tg, material, index, bFound).
        if bFound then 0 else Suc (length ms - index))") auto

declare FindMaterial_while.simps [simp del]

definition FindMaterial ::
  "string \<Rightarrow> OBJECT_MATERIAL \<Rightarrow> ('m, 'z) SceneManager_scheme \<Rightarrow> bool \<times> OBJECT_MATERIAL" where
  "FindMaterial tg material s =
     (if length (m_objectMaterials s) = 0
      then (False, material)
      else (True, FindMaterial_while (m_objectMaterials s) tg material 0 False))"

section \<open>Shader settings\<close>

text \<open>
  The GLM functions the two files call. GLM is a library outside the repository: its
  functions are taken as given, and \<open>glm_mul\<close> is the \<open>*\<close> of \<open>glm::mat4\<close>.
\<close>

record 'm glm =
  glm_radians :: "float \<Rightarrow> float"
  glm_scale :: "vec3 \<Rightarrow> 'm"
  glm_rotate :: "float \<Rightarrow> vec3 \<Rightarrow> 'm"
  glm_translate :: "vec3 \<Rightarrow> 'm"
  glm_mul :: "'m \<Rightarrow> 'm \<Rightarrow> 'm"
  glm_perspective :: "float \<Rightarrow> float \<Rightarrow> float \<Rightarrow> float \<Rightarrow> 'm"
  glm_ortho :: "float \<Rightarrow> float \<Rightarrow> float \<Rightarrow> float \<Rightarrow> float \<Rightarrow> float \<Rightarrow> 'm"

text \<open>\<open>SetTransformations\<close>, lines 249 to 279. C++ groups \<open>a * b * c\<close> from the left.\<close>

definition SetTransformations ::
  "'m glm \<Rightarrow> vec3 \<Rightarrow> float \<Rightarrow> float \<Rightarrow> float \<Rightarrow> vec3 \<Rightarrow> 'm SceneManager \<Rightarrow> 'm SceneManager" where
  "SetTransformations g scaleXYZ XrotationDegrees YrotationDegrees ZrotationDegrees positionXYZ s =
     (let scaleM = glm_scale g scaleXYZ;
          rotationX = glm_rotate g (glm_radians g XrotationDegrees) (vec3 1 0 0);
          rotationY = glm_rotate g (glm_radians g YrotationDegrees) (vec3 0 1 0);
          rotationZ = glm_rotate g (glm_radians g ZrotationDegrees) (vec3 0 0 1);
          translation = glm_translate g positionXYZ;
          modelView = glm_mul g (glm_mul g (glm_mul g (glm_mul g
                        translation rotationX) rotationY) rotationZ) scaleM
      in case m_pShaderManager s of
           None \<Rightarrow> s
         | Some sh \<Rightarrow> s\<lparr>m_pShaderManager := Some (setMat4Value g_ModelName modelView sh)\<rparr>)"

text \<open>
  \<open>SetShaderColor\<close>, lines 287 to 306. The source passes the \<open>bool\<close> literal to
  \<open>setIntValue\<close>: \<open>false\<close> converts to 0 and \<open>true\<close> to 1.
\<close>

definition SetShaderColor ::
  "float \<Rightarrow> float \<Rightarrow> float \<Rightarrow> float \<Rightarrow> 'm SceneManager \<Rightarrow> 'm SceneManager" where
  "SetShaderColor redColorValue greenColorValue blueColorValue alphaValue s =
     (let currentColor = vec4 redColorValue greenColorValue blueColorValue alphaValue
      in case m_pShaderManager s of
           None \<Rightarrow> s
         | Some sh \<Rightarrow>
             (let sh1 = setIntValue g_UseTextureName (of_bool False) sh;
                  sh2 = setVec4Value g_ColorValueName currentColor sh1
              in s\<lparr>m_pShaderManager := Some sh2\<rparr>))"

text \<open>\<open>SetShaderTexture\<close>, lines 314 to 325.\<close>

definition SetShaderTexture :: "string \<Rightarrow> 'm SceneManager \<Rightarrow> fault + 'm SceneManager" where
  "SetShaderTexture textureTag s =
     (case m_pShaderManager s of
        None \<Rightarrow> Inr s
      | Some sh \<Rightarrow>
          (let sh1 = setIntValue g_UseTextureName (of_bool True) sh
           in case FindTextureSlot textureTag s of
                Inl e \<Rightarrow> Inl e
              | Inr textureID \<Rightarrow>
                  Inr (s\<lparr>m_pShaderManager :=
                          Some (setSampler2DValue g_TextureValueName textureID sh1)\<rparr>)))"

text \<open>\<open>SetTextureUVScale\<close>, lines 333 to 339.\<close>

definition SetTextureUVScale :: "float \<Rightarrow> float \<Rightarrow> 'm SceneManager \<Rightarrow> 'm SceneManager" where
  "SetTextureUVScale u v s =
     (case m_pShaderManager s of
        None \<Rightarrow> s
      | Some sh \<Rightarrow> s\<lparr>m_pShaderManager := Some (setVec2Value ''UVscale'' (vec2 u v) sh)\<rparr>)"

text \<open>
  \<open>SetShaderMaterial\<close>, lines 347 to 365. The argument \<open>material\<close> is the content of the
  uninitialised local before the lookup. The shader manager is used without a null check.
\<close>

definition SetShaderMaterial ::
  "string \<Rightarrow> OBJECT_MATERIAL \<Rightarrow> 'm SceneManager \<Rightarrow> fault + 'm SceneManager" where
  "SetShaderMaterial materialTag material s =
     (if length (m_objectMaterials s) > 0
      then (let (bReturn, found) = FindMaterial materialTag material s
            in if bReturn = True
               then (case m_pShaderManager s of
                       None \<Rightarrow> Inl NullPointer
                     | Some sh \<Rightarrow>
                         (let sh1 = setVec3Value ''material.ambientColor'' (ambientColor found) sh;
                              sh2 = setFloatValue ''material.ambientStrength'' (ambientStrength found) sh1;
                              sh3 = setVec3Value ''material.diffuseColor'' (diffuseColor found) sh2;
                              sh4 = setVec3Value ''material.specularColor'' (specularColor found) sh3;
                              sh5 = setFloatValue ''material.shininess'' (shininess found) sh4
                          in Inr (s\<lparr>m_pShaderManager := Some sh5\<rparr>)))
               else Inr s)
      else Inr s)"

section \<open>Preparing the scene\<close>

text \<open>
  \<open>LoadSceneTextures\<close>, lines 378 to 456: twelve calls of \<open>CreateGLTexture\<close>, each result
  assigned to the local \<open>bReturn\<close>, which is never read, then \<open>BindGLTextures\<close>.
\<close>

definition scene_textures :: "(string \<times> string) list" where
  "scene_textures =
     [(''../../Utilities/textures/pavers.jpg'', ''floor''),
      (''../../Utilities/textures/dirty.jpg'', ''floor2''),
      (''../../Utilities/textures/rusticwood.jpg'', ''plank''),
      (''../../Utilities/textures/stainless.jpg'', ''desk''),
      (''../../Utilities/textures/slimBrick.jpg'', ''bDrop''),
      (''../../Utilities/textures/book011.jpg'', ''Book5''),
      (''../../Utilities/textures/book022.jpg'', ''Books''),
      (''../../Utilities/textures/plastic.jpg'', ''plastic''),
      (''../../Utilities/textures/Mons2.jpg'', ''screen''),
      (''../../Utilities/textures/rusticwood.jpg'', ''wood''),
      (''../../Utilities/textures/kb1.jpg'', ''KB1''),
      (''../../Utilities/textures/tuckersoft.jpg'', ''poster'')]"

fun CreateGLTexture_each ::
  "(string \<Rightarrow> stb_image option) \<Rightarrow> (string \<times> string) list \<Rightarrow> bool \<Rightarrow> 'm SceneManager \<Rightarrow>
   fault + bool \<times> 'm SceneManager" where
  "CreateGLTexture_each stbi_load [] bReturn s = Inr (bReturn, s)"
| "CreateGLTexture_each stbi_load ((filename, tg) # rest) bReturn s =
     (case CreateGLTexture stbi_load filename tg s of
        Inl e \<Rightarrow> Inl e
      | Inr (b, s') \<Rightarrow> CreateGLTexture_each stbi_load rest b s')"

definition LoadSceneTextures ::
  "(string \<Rightarrow> stb_image option) \<Rightarrow> 'm SceneManager \<Rightarrow> fault + 'm SceneManager" where
  "LoadSceneTextures stbi_load s =
     (case CreateGLTexture_each stbi_load scene_textures False s of
        Inl e \<Rightarrow> Inl e
      | Inr (bReturn, s') \<Rightarrow> BindGLTextures s')"

text \<open>\<open>DefineObjectMaterials\<close>, lines 463 to 534.\<close>

definition goldMaterial :: OBJECT_MATERIAL where
  "goldMaterial = \<lparr>ambientStrength = 0.4, ambientColor = vec3 0.2 0.2 0.1,
     diffuseColor = vec3 0.3 0.3 0.2, specularColor = vec3 0.6 0.5 0.4,
     shininess = 22.0, tag = ''gold''\<rparr>"

definition cementMaterial :: OBJECT_MATERIAL where
  "cementMaterial = \<lparr>ambientStrength = 0.2, ambientColor = vec3 0.2 0.2 0.2,
     diffuseColor = vec3 0.5 0.5 0.5, specularColor = vec3 0.4 0.4 0.4,
     shininess = 0.5, tag = ''cement''\<rparr>"

definition woodMaterial :: OBJECT_MATERIAL where
  "woodMaterial = \<lparr>ambientStrength = 0.2, ambientColor = vec3 0.4 0.3 0.1,
     diffuseColor = vec3 0.3 0.2 0.1, specularColor = vec3 0.1 0.1 0.1,
     shininess = 0.5, tag = ''wood''\<rparr>"

definition tileMaterial :: OBJECT_MATERIAL where
  "tileMaterial = \<lparr>ambientStrength = 0.3, ambientColor = vec3 0.2 0.3 0.4,
     diffuseColor = vec3 0.3 0.2 0.1, specularColor = vec3 0.4 0.5 0.6,
     shininess = 25.0, tag = ''tile''\<rparr>"

definition glassMaterial :: OBJECT_MATERIAL where
  "glassMaterial = \<lparr>ambientStrength = 0.3, ambientColor = vec3 0.4 0.4 0.4,
     diffuseColor = vec3 0.4 0.4 0.5, specularColor = vec3 0.6 0.6 0.6,
     shininess = 85.0, tag = ''glass''\<rparr>"

definition clayMaterial :: OBJECT_MATERIAL where
  "clayMaterial = \<lparr>ambientStrength = 0.2, ambientColor = vec3 0.4 0.3 0.1,
     diffuseColor = vec3 0.3 0.2 0.1, specularColor = vec3 0.4 0.5 0.6,
     shininess = 0.5, tag = ''clay''\<rparr>"

definition DefineObjectMaterials :: "'m SceneManager \<Rightarrow> 'm SceneManager" where
  "DefineObjectMaterials s =
     s\<lparr>m_objectMaterials := m_objectMaterials s @
        [goldMaterial, cementMaterial, woodMaterial, tileMaterial, glassMaterial, clayMaterial]\<rparr>"

section \<open>Sequences of scene manager calls\<close>

text \<open>
  \<open>RenderScene\<close> is a straight sequence of calls of \<open>SetTransformations\<close>,
  \<open>SetShaderColor\<close>, \<open>SetShaderTexture\<close>, \<open>SetShaderMaterial\<close> and the draw methods of
  \<open>m_basicMeshes\<close>. A call is a value, and \<open>scene_call\<close> runs one against the state.
\<close>

datatype scene_op =
    Call_CreateGLTexture string string
  | Call_BindGLTextures
  | Call_DestroyGLTextures
  | Call_FindTextureID string
  | Call_FindTextureSlot string
  | Call_FindMaterial string OBJECT_MATERIAL
  | Call_SetTransformations vec3 float float float vec3
  | Call_SetShaderColor float float float float
  | Call_SetShaderTexture string
  | Call_SetTextureUVScale float float
  | Call_SetShaderMaterial string OBJECT_MATERIAL
  | Call_LoadSceneTextures
  | Call_DefineObjectMaterials
  | Call_basicMeshes mesh_call

fun scene_call ::
  "(string \<Rightarrow> stb_image option) \<Rightarrow> 'm glm \<Rightarrow> scene_op \<Rightarrow> 'm SceneManager \<Rightarrow>
   fault + 'm SceneManager" where
  "scene_call ld g (Call_CreateGLTexture filename tg) s =
     (case CreateGLTexture ld filename tg s of Inl e \<Rightarrow> Inl e | Inr (b, s') \<Rightarrow> Inr s')"
| "scene_call ld g Call_BindGLTextures s = BindGLTextures s"
| "scene_call ld g Call_DestroyGLTextures s = DestroyGLTextures s"
| "scene_call ld g (Call_FindTextureID tg) s =
     (case FindTextureID tg s of Inl e \<Rightarrow> Inl e | Inr r \<Rightarrow> Inr s)"
| "scene_call ld g (Call_FindTextureSlot tg) s =
     (case FindTextureSlot tg s of Inl e \<Rightarrow> Inl e | Inr r \<Rightarrow> Inr s)"
| "scene_call ld g (Call_FindMaterial tg material) s = Inr s"
| "scene_call ld g (Call_SetTransformations sc rx ry rz pos) s =
     Inr (SetTransformations g sc rx ry rz pos s)"
| "scene_call ld g (Call_SetShaderColor r gr b a) s = Inr (SetShaderColor r gr b a s)"
| "scene_call ld g (Call_SetShaderTexture tg) s = SetShaderTexture tg s"
| "scene_call ld g (Call_SetTextureUVScale u v) s = Inr (SetTextureUVScale u v s)"
| "scene_call ld g (Call_SetShaderMaterial tg material) s = SetShaderMaterial tg material s"
| "scene_call ld g Call_LoadSceneTextures s = LoadSceneTextures ld s"
| "scene_call ld g Call_DefineObjectMaterials s = Inr (DefineObjectMaterials s)"
| "scene_call ld g (Call_basicMeshes m) s = Inr (s\<lparr>m_basicMeshes := m_basicMeshes s @ [m]\<rparr>)"

fun scene_calls ::
  "(string \<Rightarrow> stb_image option) \<Rightarrow> 'm glm \<Rightarrow> scene_op list \<Rightarrow> 'm SceneManager \<Rightarrow>
   fault + 'm SceneManager" where
  "scene_calls ld g [] s = Inr s"
| "scene_calls ld g (c # cs) s =
     (case scene_call ld g c s of Inl e \<Rightarrow> Inl e | Inr s' \<Rightarrow> scene_calls ld g cs s')"

subsection \<open>Single and double precision\<close>

text \<open>
  The exponent of the binade of a positive number: \<open>2 powi binade x \<le> x < 2 powi (binade x + 1)\<close>
  (lemma \<open>binade_bounds\<close>).
\<close>

function binade :: "real \<Rightarrow> int" where
  "binade x =
     (if 2 \<le> x then binade (x / 2) + 1
      else if 0 < x \<and> x < 1 then binade (x * 2) - 1
      else 0)"
  by pat_completeness auto
termination
proof (relation "measure (\<lambda>x. if 1 \<le> x then nat (\<lfloor>x\<rfloor> - 1) else if 0 < x then nat \<lfloor>1 / x\<rfloor> else 0)")
  show "wf (measure (\<lambda>x::real. if 1 \<le> x then nat (\<lfloor>x\<rfloor> - 1) else if 0 < x then nat \<lfloor>1 / x\<rfloor> else 0))"
    by simp
next
  fix x :: real assume x: "2 \<le> x"
  have "\<lfloor>x / 2\<rfloor> < \<lfloor>x\<rfloor>"
  proof -
    have "x / 2 + 1 \<le> x" using x by simp
    then have "\<lfloor>x / 2 + 1\<rfloor> \<le> \<lfloor>x\<rfloor>" by (rule floor_mono)
    then show ?thesis by simp
  qed
  moreover have "1 \<le> \<lfloor>x / 2\<rfloor>" using x by (simp add: le_floor_iff)
  ultimately show "(x / 2, x) \<in> measure (\<lambda>x. if 1 \<le> x then nat (\<lfloor>x\<rfloor> - 1) else if 0 < x then nat \<lfloor>1 / x\<rfloor> else 0)"
    using x by simp
next
  fix x :: real assume a: "\<not> 2 \<le> x" and b: "0 < x \<and> x < 1"
  then have pos: "0 < x" and lt: "x < 1" by simp_all
  have one: "1 \<le> \<lfloor>1 / x\<rfloor>" using pos lt by (simp add: le_floor_iff)
  show "(x * 2, x) \<in> measure (\<lambda>x. if 1 \<le> x then nat (\<lfloor>x\<rfloor> - 1) else if 0 < x then nat \<lfloor>1 / x\<rfloor> else 0)"
  proof (cases "1 \<le> x * 2")
    case True
    then have "x * 2 < 2" using lt by simp
    with True have "\<lfloor>x * 2\<rfloor> = 1" by (simp add: floor_eq_iff)
    with True one pos lt show ?thesis by simp
  next
    case False
    then have y: "2 < 1 / x" using pos by (simp add: field_simps)
    have "1 / (x * 2) + 1 \<le> 1 / x"
    proof -
      have "1 / (x * 2) = (1 / x) / 2" by simp
      with y show ?thesis by simp
    qed
    then have "\<lfloor>1 / (x * 2) + 1\<rfloor> \<le> \<lfloor>1 / x\<rfloor>" by (rule floor_mono)
    then have "\<lfloor>1 / (x * 2)\<rfloor> < \<lfloor>1 / x\<rfloor>" by simp
    moreover have "0 \<le> \<lfloor>1 / (x * 2)\<rfloor>" using pos by simp
    ultimately show ?thesis using False pos by simp
  qed
qed

declare binade.simps [simp del]

text \<open>The nearest integer, a tie going to the even one.\<close>

definition round_to_even :: "real \<Rightarrow> int" where
  "round_to_even y =
     (let f = \<lfloor>y\<rfloor>; r = y - of_int f
      in if r < 1 / 2 then f else if 1 / 2 < r then f + 1 else if even f then f else f + 1)"

text \<open>
  Rounding to the nearest number with \<open>p\<close> significant bits and least exponent \<open>emin\<close>, ties
  to even: the unit in the last place is \<open>2 ^ e\<close>. Overflow to infinity is not modelled; the
  values of the loop lie between 1/16 and 32.
\<close>

definition round_binary :: "nat \<Rightarrow> int \<Rightarrow> real \<Rightarrow> real" where
  "round_binary p emin x =
     (if x = 0 then 0
      else (let e = max (binade \<bar>x\<bar> - (int p - 1)) emin
            in if 0 \<le> e then of_int (round_to_even (x / 2 ^ nat e)) * 2 ^ nat e
               else of_int (round_to_even (x * 2 ^ nat (- e))) / 2 ^ nat (- e)))"

text \<open>
  A \<open>float\<close> is binary32 and a \<open>double\<close> binary64. A literal with the suffix \<open>f\<close> is the
  \<open>float\<close> nearest to its decimal value, a literal without it the nearest \<open>double\<close>.
\<close>

definition to_float :: "real \<Rightarrow> float" where
  "to_float x = round_binary 24 (- 149) x"

definition to_double :: "real \<Rightarrow> double" where
  "to_double x = round_binary 53 (- 1074) x"

text \<open>
  \<open>x += d\<close> and \<open>x -= d\<close> for a \<open>float\<close> variable and a \<open>double\<close> operand: the variable is
  converted to \<open>double\<close> (exactly), the sum or difference is rounded to \<open>double\<close>, and the
  assignment rounds it to \<open>float\<close>.
\<close>

definition plus_assign :: "float \<Rightarrow> double \<Rightarrow> float" where
  "plus_assign x d = to_float (to_double (x + d))"

definition minus_assign :: "float \<Rightarrow> double \<Rightarrow> float" where
  "minus_assign x d = to_float (to_double (x - d))"

subsection \<open>The stacked-books loop\<close>

text \<open>
  The stacked-books loop of \<open>RenderScene\<close>, lines 869 to 909: the calls the loop makes from
  iteration \<open>i\<close> on, and the values of its locals when it ends. \<open>material\<close> is the content of
  the uninitialised local of \<open>SetShaderMaterial\<close>. The locals are \<open>float\<close>s and the operands
  of \<open>+=\<close> and \<open>-=\<close> are \<open>double\<close> literals.
\<close>

function BookGenerator_for ::
  "OBJECT_MATERIAL \<Rightarrow> int \<Rightarrow> float \<Rightarrow> float \<Rightarrow> float \<Rightarrow> float \<Rightarrow> float \<Rightarrow>
   scene_op list \<times> (float \<times> float \<times> float \<times> float \<times> float)" where
  "BookGenerator_for material i yRot yPos xPos xScale zScale =
     (if i \<le> 4
      then (let scaleXYZ = vec3 xScale (to_float 0.1) zScale;
                XrotationDegrees = to_float 0.0;
                YrotationDegrees = yRot;
                ZrotationDegrees = to_float 0.0;
                positionXYZ = vec3 xPos yPos (- to_float 1.2);
                body =
                  [Call_SetTransformations scaleXYZ XrotationDegrees YrotationDegrees
                     ZrotationDegrees positionXYZ,
                   (if i = 4 then Call_SetShaderTexture ''Book5''
                    else Call_SetShaderTexture ''Books''),
                   (if i mod 2 = 0 then Call_SetShaderMaterial ''wood'' material
                    else Call_SetShaderMaterial ''clay'' material),
                   Call_basicMeshes DrawBoxMesh];
                (rest, final) =
                  BookGenerator_for material (i + 1)
                    (if i mod 2 = 0 then plus_assign yRot (to_double 4.23)
                     else minus_assign yRot (to_double 1.03))
                    (plus_assign yPos (to_double 0.10))
                    xPos
                    (if i mod 2 = 0 then plus_assign xScale (to_double 0.13)
                     else minus_assign xScale (to_double 0.15))
                    (if i mod 2 = 0 then plus_assign zScale (to_double 0.12)
                     else minus_assign zScale (to_double 0.10))
            in (body @ rest, final))
      else ([], (yRot, yPos, xPos, xScale, zScale)))"
  by pat_completeness auto
termination
  by (relation "measure (\<lambda>(material, i, yRot, yPos, xPos, xScale, zScale). nat (5 - i))") auto

declare BookGenerator_for.simps [simp del]

text \<open>The initialisers of lines 869 to 873; \<open>zScale\<close> is initialised from a \<open>double\<close> literal.\<close>

definition BookGenerator ::
  "OBJECT_MATERIAL \<Rightarrow> scene_op list \<times> (float \<times> float \<times> float \<times> float \<times> float)" where
  "BookGenerator material =
     BookGenerator_for material 0 (to_float 10.0) (to_float 2.8) (- to_float 2.5)
       (to_float 0.7) (to_float (to_double 0.9))"

section \<open>The view manager\<close>

definition WINDOW_WIDTH :: int where "WINDOW_WIDTH = 1000"
definition WINDOW_HEIGHT :: int where "WINDOW_HEIGHT = 800"
definition g_ViewName :: string where "g_ViewName = ''view''"
definition g_ProjectionName :: string where "g_ProjectionName = ''projection''"

datatype Camera_Movement = FORWARD | BACKWARD | LEFT | RIGHT | UP | DOWN

datatype glfw_key =
    GLFW_KEY_ESCAPE | GLFW_KEY_W | GLFW_KEY_S | GLFW_KEY_A | GLFW_KEY_D
  | GLFW_KEY_Q | GLFW_KEY_E | GLFW_KEY_P | GLFW_KEY_O

text \<open>The methods of the camera class that the view manager calls, taken as given.\<close>

record ('m, 'c) camera_class =
  ProcessKeyboard :: "Camera_Movement \<Rightarrow> float \<Rightarrow> 'c Camera_scheme \<Rightarrow> 'c Camera_scheme"
  GetViewMatrix :: "'c Camera_scheme \<Rightarrow> 'm"

text \<open>
  The constructor, lines 50 to 61, on the initial values of the globals. \<open>camera\<close> is the
  object \<open>new Camera()\<close> returns.
\<close>

definition ViewManager_new ::
  "'m ShaderManager option \<Rightarrow> 'c Camera_scheme \<Rightarrow> ('m, 'c) ViewManager" where
  "ViewManager_new pShaderManager camera =
     \<lparr>ViewManager.m_pShaderManager = pShaderManager,
      window_should_close = False,
      g_pCamera = Some (camera\<lparr>Position := vec3 0.0 5.5 8.0, Front := vec3 0.0 (- 0.5) (- 2.0),
                               Up := vec3 0.0 1.0 0.0, Zoom := 80\<rparr>),
      gLastX = real_of_int WINDOW_WIDTH / 2.0,
      gLastY = real_of_int WINDOW_HEIGHT / 2.0,
      gFirstMouse = True,
      gDeltaTime = 0.0,
      gLastFrame = 0.0,
      bOrthographicProjection = False,
      gMovementSpeed = 2.5,
      view_console = []\<rparr>"

text \<open>\<open>std::max(a, b)\<close> is \<open>(a < b) ? b : a\<close>.\<close>

definition std_max :: "float \<Rightarrow> float \<Rightarrow> float" where
  "std_max a b = (if a < b then b else a)"

text \<open>
  \<open>Mouse_Scroll_Callback\<close>, lines 138 to 144. \<open>fl\<close> rounds the exact sum or difference to
  a \<open>float\<close>; exact arithmetic is \<open>fl = (\<lambda>x. x)\<close>.
\<close>

definition Mouse_Scroll_Callback ::
  "(real \<Rightarrow> float) \<Rightarrow> double \<Rightarrow> double \<Rightarrow> ('m, 'c) ViewManager \<Rightarrow> ('m, 'c) ViewManager" where
  "Mouse_Scroll_Callback fl xOffset yOffset v =
     (if yOffset > 0
      then v\<lparr>gMovementSpeed := fl (gMovementSpeed v + 0.5)\<rparr>
      else if yOffset < 0
      then v\<lparr>gMovementSpeed := std_max 0.5 (fl (gMovementSpeed v - 0.5))\<rparr>
      else v)"

fun Mouse_Scroll_Callbacks ::
  "(real \<Rightarrow> float) \<Rightarrow> (double \<times> double) list \<Rightarrow> ('m, 'c) ViewManager \<Rightarrow> ('m, 'c) ViewManager" where
  "Mouse_Scroll_Callbacks fl [] v = v"
| "Mouse_Scroll_Callbacks fl ((xOffset, yOffset) # rest) v =
     Mouse_Scroll_Callbacks fl rest (Mouse_Scroll_Callback fl xOffset yOffset v)"

text \<open>
  \<open>ProcessKeyboardEvents\<close>, lines 151 to 204. \<open>pressed k\<close> is the answer
  \<open>glfwGetKey(m_pWindow, k) == GLFW_PRESS\<close>.
\<close>

definition move ::
  "('m, 'c) camera_class \<Rightarrow> (glfw_key \<Rightarrow> bool) \<Rightarrow> glfw_key \<Rightarrow> Camera_Movement \<Rightarrow> float \<Rightarrow>
   'c Camera_scheme \<Rightarrow> 'c Camera_scheme" where
  "move cam pressed k direction velocity c =
     (if pressed k then ProcessKeyboard cam direction velocity c else c)"

definition ProcessKeyboardEvents ::
  "('m, 'c) camera_class \<Rightarrow> (glfw_key \<Rightarrow> bool) \<Rightarrow> ('m, 'c) ViewManager \<Rightarrow> ('m, 'c) ViewManager" where
  "ProcessKeyboardEvents cam pressed v =
     (let v1 = (if pressed GLFW_KEY_ESCAPE then v\<lparr>window_should_close := True\<rparr> else v)
      in case g_pCamera v1 of
           None \<Rightarrow> v1
         | Some c \<Rightarrow>
             (let c1 = move cam pressed GLFW_KEY_W FORWARD (gDeltaTime v1 * gMovementSpeed v1) c;
                  c2 = move cam pressed GLFW_KEY_S BACKWARD (gDeltaTime v1 * gMovementSpeed v1) c1;
                  c3 = move cam pressed GLFW_KEY_A LEFT (gDeltaTime v1 * gMovementSpeed v1) c2;
                  c4 = move cam pressed GLFW_KEY_D RIGHT (gDeltaTime v1 * gMovementSpeed v1) c3;
                  c5 = move cam pressed GLFW_KEY_Q UP (gDeltaTime v1 * gMovementSpeed v1) c4;
                  c6 = move cam pressed GLFW_KEY_E DOWN (gDeltaTime v1 * gMovementSpeed v1) c5;
                  (v2, c7) =
                    (if pressed GLFW_KEY_P
                     then (v1\<lparr>bOrthographicProjection := False,
                              view_console := view_console v1 @ [Switched_to_Perspective_View]\<rparr>,
                           c6\<lparr>Position := vec3 0.0 5.5 8.0,
                              Front := vec3 0.0 (- 0.5) (- 2.0),
                              Up := vec3 0.0 1.0 0.0,
                              Zoom := 80.0\<rparr>)
                     else (v1, c6));
                  (v3, c8) =
                    (if pressed GLFW_KEY_O
                     then (v2\<lparr>bOrthographicProjection := True,
                              view_console := view_console v2 @ [Switched_to_Orthographic_View]\<rparr>,
                           c7\<lparr>Position := vec3 0.0 5.0 10.0,
                              Front := vec3 0.0 0.0 (- 1.0),
                              Up := vec3 0.0 1.0 0.0,
                              Zoom := 1.0\<rparr>)
                     else (v2, c7))
              in v3\<lparr>g_pCamera := Some c8\<rparr>))"

text \<open>
  \<open>PrepareSceneView\<close>, lines 211 to 249. \<open>currentFrame\<close> is the answer of \<open>glfwGetTime\<close>.
  The camera is dereferenced without a null check.
\<close>

definition PrepareSceneView ::
  "'m glm \<Rightarrow> ('m, 'c) camera_class \<Rightarrow> float \<Rightarrow> (glfw_key \<Rightarrow> bool) \<Rightarrow> ('m, 'c) ViewManager \<Rightarrow>
   fault + ('m, 'c) ViewManager" where
  "PrepareSceneView g cam currentFrame pressed v =
     (let v1 = v\<lparr>gDeltaTime := currentFrame - gLastFrame v, gLastFrame := currentFrame\<rparr>;
          v2 = ProcessKeyboardEvents cam pressed v1
      in case g_pCamera v2 of
           None \<Rightarrow> Inl NullPointer
         | Some c \<Rightarrow>
             (let view = GetViewMatrix cam c;
                  projection =
                    (if \<not> bOrthographicProjection v2
                     then glm_perspective g (glm_radians g (Zoom c))
                            (real_of_int WINDOW_WIDTH / real_of_int WINDOW_HEIGHT) 0.1 100.0
                     else (let orthoSize = 5.0;
                               aspectRatio = real_of_int WINDOW_WIDTH / real_of_int WINDOW_HEIGHT
                           in if aspectRatio \<ge> 1.0
                              then glm_ortho g (- orthoSize * aspectRatio) (orthoSize * aspectRatio)
                                     (- orthoSize) orthoSize 0.1 100.0
                              else glm_ortho g (- orthoSize) orthoSize
                                     (- orthoSize / aspectRatio) (orthoSize / aspectRatio)
                                     0.1 100.0))
              in case ViewManager.m_pShaderManager v2 of
                   None \<Rightarrow> Inr v2
                 | Some sh \<Rightarrow>
                     (let sh1 = setMat4Value g_ViewName view sh;
                          sh2 = setMat4Value g_ProjectionName projection sh1;
                          sh3 = setVec3Value ''viewPosition'' (Position c) sh2
                      in Inr (v2\<lparr>ViewManager.m_pShaderManager := Some sh3\<rparr>))))"

section \<open>Vocabulary of the properties\<close>

text \<open>The tags of the stored entries, in index order.\<close>

definition registered_tags :: "('m, 'z) SceneManager_scheme \<Rightarrow> string list" where
  "registered_tags s = map tag (take (nat (m_loadedTextures s)) (m_textureIDs s))"

text \<open>The two calls that choose between drawing with a colour and drawing with a texture.\<close>

definition is_mode_call :: "scene_op \<Rightarrow> bool" where
  "is_mode_call c =
     (case c of Call_SetShaderColor r g b a \<Rightarrow> True | Call_SetShaderTexture tg \<Rightarrow> True
      | _ \<Rightarrow> False)"

definition mode_of :: "scene_op \<Rightarrow> int" where
  "mode_of c = (case c of Call_SetShaderTexture tg \<Rightarrow> 1 | _ \<Rightarrow> 0)"

text \<open>A file decodes to an image that \<open>CreateGLTexture\<close> accepts.\<close>

definition loads :: "(string \<Rightarrow> stb_image option) \<Rightarrow> string \<Rightarrow> bool" where
  "loads stbi_load filename =
     (case stbi_load filename of
        None \<Rightarrow> False
      | Some img \<Rightarrow> colorChannels img = 3 \<or> colorChannels img = 4)"

text \<open>
  The calls that can register a texture: \<open>CreateGLTexture\<close> and its caller
  \<open>LoadSceneTextures\<close>.
\<close>

definition is_load_call :: "scene_op \<Rightarrow> bool" where
  "is_load_call c =
     (case c of Call_CreateGLTexture filename tg \<Rightarrow> True | Call_LoadSceneTextures \<Rightarrow> True
      | _ \<Rightarrow> False)"

text \<open>One iteration of the loop of \<open>DestroyGLTextures\<close>, at index \<open>i\<close>.\<close>

definition regenerate :: "nat \<Rightarrow> 'm SceneManager \<Rightarrow> 'm SceneManager" where
  "regenerate i s =
     s\<lparr>gl_calls := gl_calls s @ [GenTextures (gl_names s (gl_generated s))],
       gl_generated := Suc (gl_generated s),
       m_textureIDs := (m_textureIDs s)[i := (m_textureIDs s ! i)\<lparr>ID := gl_names s (gl_generated s)\<rparr>]\<rparr>"

text \<open>
  From \<open>s\<close> to \<open>s'\<close> the count has not decreased, the array has kept its capacity and the
  entries stored in \<open>s\<close> have kept their tags.
\<close>

definition entries_kept :: "'m SceneManager \<Rightarrow> 'm SceneManager \<Rightarrow> bool" where
  "entries_kept s s' \<longleftrightarrow>
     m_loadedTextures s \<le> m_loadedTextures s' \<and>
     length (m_textureIDs s') = length (m_textureIDs s) \<and>
     (\<forall>i. int i < m_loadedTextures s \<and> i < length (m_textureIDs s) \<longrightarrow>
        tag (m_textureIDs s' ! i) = tag (m_textureIDs s ! i))"

text \<open>The calls \<open>RenderScene\<close> is made of, and the mesh calls among a list of calls.\<close>

definition is_render_call :: "scene_op \<Rightarrow> bool" where
  "is_render_call c =
     (case c of
        Call_SetTransformations sc rx ry rz pos \<Rightarrow> True
      | Call_SetShaderColor r g b a \<Rightarrow> True
      | Call_SetShaderTexture tg \<Rightarrow> True
      | Call_SetTextureUVScale u v \<Rightarrow> True
      | Call_SetShaderMaterial tg material \<Rightarrow> True
      | Call_basicMeshes m \<Rightarrow> True
      | _ \<Rightarrow> False)"

fun mesh_calls :: "scene_op list \<Rightarrow> mesh_call list" where
  "mesh_calls [] = []"
| "mesh_calls (Call_basicMeshes m # cs) = m # mesh_calls cs"
| "mesh_calls (c # cs) = mesh_calls cs"

text \<open>The Y positions the stacked-books loop passes to \<open>SetTransformations\<close>, in order.\<close>

fun vec3_y :: "vec3 \<Rightarrow> float" where
  "vec3_y (vec3 x y z) = y"

fun transformation_positions :: "scene_op list \<Rightarrow> vec3 list" where
  "transformation_positions [] = []"
| "transformation_positions (Call_SetTransformations sc rx ry rz pos # cs) =
     pos # transformation_positions cs"
| "transformation_positions (c # cs) = transformation_positions cs"

definition book_y_positions :: "OBJECT_MATERIAL \<Rightarrow> float list" where
  "book_y_positions material = map vec3_y (transformation_positions (fst (BookGenerator material)))"

section \<open>Example states\<close>

text \<open>
  GLM with matrices as unevaluated terms, and \<open>radians\<close> with 355/113 for the circle
  constant.
\<close>

datatype mat4 =
    Scale vec3
  | Rotate float vec3
  | Translate vec3
  | Mul mat4 mat4
  | Perspective float float float float
  | Ortho float float float float float float
  | LookAt vec3 vec3 vec3

definition glm_terms :: "mat4 glm" where
  "glm_terms =
     \<lparr>glm_radians = (\<lambda>d. d * (355 / 113) / 180),
      glm_scale = Scale,
      glm_rotate = Rotate,
      glm_translate = Translate,
      glm_mul = Mul,
      glm_perspective = Perspective,
      glm_ortho = Ortho\<rparr>"

text \<open>A camera that moves 1 along an axis per unit of velocity and looks along \<open>Front\<close>.\<close>

fun vec3_add :: "vec3 \<Rightarrow> vec3 \<Rightarrow> vec3" where
  "vec3_add (vec3 a b c) (vec3 x y z) = vec3 (a + x) (b + y) (c + z)"

fun direction :: "Camera_Movement \<Rightarrow> float \<Rightarrow> vec3" where
  "direction FORWARD d = vec3 0 0 (- d)"
| "direction BACKWARD d = vec3 0 0 d"
| "direction LEFT d = vec3 (- d) 0 0"
| "direction RIGHT d = vec3 d 0 0"
| "direction UP d = vec3 0 d 0"
| "direction DOWN d = vec3 0 (- d) 0"

definition camera_axes :: "(mat4, unit) camera_class" where
  "camera_axes =
     \<lparr>ProcessKeyboard = (\<lambda>m velocity c. c\<lparr>Position := vec3_add (Position c) (direction m velocity)\<rparr>),
      GetViewMatrix = (\<lambda>c. LookAt (Position c) (vec3_add (Position c) (Front c)) (Up c))\<rparr>"

definition camera_origin :: Camera where
  "camera_origin = \<lparr>Position = vec3 0 0 0, Front = vec3 0 0 (- 1), Up = vec3 0 1 0, Zoom = 45\<rparr>"

text \<open>A rounding for the scroll callback: down to the next multiple of 1/4.\<close>

definition to_quarters :: "real \<Rightarrow> float" where
  "to_quarters x = real_of_int \<lfloor>x * 4\<rfloor> / 4"

text \<open>
  A scene manager with a shader manager, an array of capacity four and two textures
  registered under the same tag.
\<close>

definition scene_two :: "mat4 SceneManager" where
  "scene_two =
     \<lparr>m_pShaderManager = Some [],
      m_basicMeshes = [],
      m_loadedTextures = 2,
      m_textureIDs = [\<lparr>tag = ''wood'', ID = 7\<rparr>, \<lparr>tag = ''wood'', ID = 9\<rparr>,
                      \<lparr>tag = [], ID = 0\<rparr>, \<lparr>tag = [], ID = 0\<rparr>],
      m_objectMaterials = [],
      gl_calls = [],
      gl_names = (\<lambda>k. 10 + of_nat k),
      gl_generated = 0,
      console = []\<rparr>"

text \<open>A decoder that knows one RGB file and one file with two channels.\<close>

definition two_files :: "string \<Rightarrow> stb_image option" where
  "two_files filename =
     (if filename = ''rgb.jpg'' then Some \<lparr>width = 4, height = 2, colorChannels = 3\<rparr>
      else if filename = ''grey.png'' then Some \<lparr>width = 4, height = 2, colorChannels = 2\<rparr>
      else None)"



section \<open>Properties of the lookups\<close>

lemma FindTextureID_while_done:
  "FindTextureID_while s tg r index True = Inr r"
  by (subst FindTextureID_while.simps) simp

lemma FindTextureID_while_found:
  "index \<le> k \<Longrightarrow> k < length (m_textureIDs s) \<Longrightarrow> int k < m_loadedTextures s \<Longrightarrow>
   tag (m_textureIDs s ! k) = tg \<Longrightarrow>
   (\<And>j. index \<le> j \<Longrightarrow> j < k \<Longrightarrow> tag (m_textureIDs s ! j) \<noteq> tg) \<Longrightarrow>
   FindTextureID_while s tg r index False = Inr (sint (ID (m_textureIDs s ! k)))"
proof (induction "k - index" arbitrary: index r)
  case 0
  then have "index = k" by simp
  with 0 show ?case
    by (subst FindTextureID_while.simps) (simp add: in_array_def FindTextureID_while_done)
next
  case (Suc d)
  then have lt: "index < k" by simp
  have ne: "tag (m_textureIDs s ! index) \<noteq> tg" using Suc.prems(5) [of index] lt by simp
  have "FindTextureID_while s tg r (index + 1) False = Inr (sint (ID (m_textureIDs s ! k)))"
    using Suc.hyps(1) [of "index + 1" r] Suc.hyps(2) Suc.prems lt by simp
  with lt ne Suc.prems show ?case
    by (subst FindTextureID_while.simps) (simp add: in_array_def)
qed

lemma FindTextureID_while_absent:
  "m_loadedTextures s \<le> int (length (m_textureIDs s)) \<Longrightarrow>
   (\<And>j. index \<le> j \<Longrightarrow> int j < m_loadedTextures s \<Longrightarrow> tag (m_textureIDs s ! j) \<noteq> tg) \<Longrightarrow>
   FindTextureID_while s tg r index False = Inr r"
proof (induction "nat (m_loadedTextures s) - index" arbitrary: index)
  case 0
  then have "\<not> int index < m_loadedTextures s" by simp
  then show ?case by (subst FindTextureID_while.simps) simp
next
  case (Suc d)
  then have lt: "int index < m_loadedTextures s" by simp
  have ne: "tag (m_textureIDs s ! index) \<noteq> tg" using Suc.prems(2) [of index] lt by simp
  have "FindTextureID_while s tg r (index + 1) False = Inr r"
    using Suc.hyps(1) [of "index + 1"] Suc.hyps(2) Suc.prems lt by simp
  with lt ne Suc.prems show ?case
    by (subst FindTextureID_while.simps) (simp add: in_array_def)
qed

lemma FindMaterial_while_done:
  "FindMaterial_while ms tg material index True = material"
  by (subst FindMaterial_while.simps) simp

lemma FindMaterial_while_found:
  "index \<le> k \<Longrightarrow> k < length ms \<Longrightarrow> OBJECT_MATERIAL.tag (ms ! k) = tg \<Longrightarrow>
   (\<And>j. index \<le> j \<Longrightarrow> j < k \<Longrightarrow> OBJECT_MATERIAL.tag (ms ! j) \<noteq> tg) \<Longrightarrow>
   FindMaterial_while ms tg material index False =
     material\<lparr>ambientColor := ambientColor (ms ! k),
              ambientStrength := ambientStrength (ms ! k),
              diffuseColor := diffuseColor (ms ! k),
              specularColor := specularColor (ms ! k),
              shininess := shininess (ms ! k)\<rparr>"
proof (induction "k - index" arbitrary: index)
  case 0
  then have "index = k" by simp
  with 0 show ?case
    by (subst FindMaterial_while.simps) (simp add: FindMaterial_while_done)
next
  case (Suc d)
  then have lt: "index < k" by simp
  have ne: "OBJECT_MATERIAL.tag (ms ! index) \<noteq> tg" using Suc.prems(4) [of index] lt by simp
  have "FindMaterial_while ms tg material (index + 1) False =
     material\<lparr>ambientColor := ambientColor (ms ! k),
              ambientStrength := ambientStrength (ms ! k),
              diffuseColor := diffuseColor (ms ! k),
              specularColor := specularColor (ms ! k),
              shininess := shininess (ms ! k)\<rparr>"
    using Suc.hyps(1) [of "index + 1"] Suc.hyps(2) Suc.prems lt by simp
  with lt ne Suc.prems show ?case
    by (subst FindMaterial_while.simps) simp
qed

lemma FindMaterial_while_absent:
  "(\<And>j. index \<le> j \<Longrightarrow> j < length ms \<Longrightarrow> OBJECT_MATERIAL.tag (ms ! j) \<noteq> tg) \<Longrightarrow>
   FindMaterial_while ms tg material index False = material"
proof (induction "length ms - index" arbitrary: index)
  case 0
  then have "\<not> index < length ms" by simp
  then show ?case by (subst FindMaterial_while.simps) simp
next
  case (Suc d)
  then have lt: "index < length ms" by simp
  have ne: "OBJECT_MATERIAL.tag (ms ! index) \<noteq> tg" using Suc.prems(1) [of index] lt by simp
  have "FindMaterial_while ms tg material (index + 1) False = material"
    using Suc.hyps(1) [of "index + 1"] Suc.hyps(2) Suc.prems lt by simp
  with lt ne show ?case
    by (subst FindMaterial_while.simps) simp
qed

lemma FindMaterial_unknown:
  "m_objectMaterials s \<noteq> [] \<Longrightarrow>
   (\<And>j. j < length (m_objectMaterials s) \<Longrightarrow> OBJECT_MATERIAL.tag (m_objectMaterials s ! j) \<noteq> tg) \<Longrightarrow>
   FindMaterial tg material s = (True, material)"
  by (simp add: FindMaterial_def FindMaterial_while_absent)

lemma FindTextureSlot_while_done:
  "FindTextureSlot_while s tg slot index True = Inr slot"
  by (subst FindTextureSlot_while.simps) simp

lemma FindTextureSlot_while_found:
  "index \<le> k \<Longrightarrow> k < length (m_textureIDs s) \<Longrightarrow> int k < m_loadedTextures s \<Longrightarrow>
   tag (m_textureIDs s ! k) = tg \<Longrightarrow>
   (\<And>j. index \<le> j \<Longrightarrow> j < k \<Longrightarrow> tag (m_textureIDs s ! j) \<noteq> tg) \<Longrightarrow>
   FindTextureSlot_while s tg slot index False = Inr (int k)"
proof (induction "k - index" arbitrary: index slot)
  case 0
  then have "index = k" by simp
  with 0 show ?case
    by (subst FindTextureSlot_while.simps) (simp add: in_array_def FindTextureSlot_while_done)
next
  case (Suc d)
  then have lt: "index < k" by simp
  have ne: "tag (m_textureIDs s ! index) \<noteq> tg" using Suc.prems(5) [of index] lt by simp
  have "FindTextureSlot_while s tg slot (index + 1) False = Inr (int k)"
    using Suc.hyps(1) [of "index + 1" slot] Suc.hyps(2) Suc.prems lt by simp
  with lt ne Suc.prems show ?case
    by (subst FindTextureSlot_while.simps) (simp add: in_array_def)
qed

lemma FindTextureSlot_while_absent:
  "m_loadedTextures s \<le> int (length (m_textureIDs s)) \<Longrightarrow>
   (\<And>j. index \<le> j \<Longrightarrow> int j < m_loadedTextures s \<Longrightarrow> tag (m_textureIDs s ! j) \<noteq> tg) \<Longrightarrow>
   FindTextureSlot_while s tg slot index False = Inr slot"
proof (induction "nat (m_loadedTextures s) - index" arbitrary: index)
  case 0
  then have "\<not> int index < m_loadedTextures s" by simp
  then show ?case by (subst FindTextureSlot_while.simps) simp
next
  case (Suc d)
  then have lt: "int index < m_loadedTextures s" by simp
  have ne: "tag (m_textureIDs s ! index) \<noteq> tg" using Suc.prems(2) [of index] lt by simp
  have "FindTextureSlot_while s tg slot (index + 1) False = Inr slot"
    using Suc.hyps(1) [of "index + 1"] Suc.hyps(2) Suc.prems lt by simp
  with lt ne Suc.prems show ?case
    by (subst FindTextureSlot_while.simps) (simp add: in_array_def)
qed

text \<open>The lookups on a whole registry: the first match, and the value for no match.\<close>

lemma FindTextureSlot_first_match:
  "k < length (m_textureIDs s) \<Longrightarrow> int k < m_loadedTextures s \<Longrightarrow>
   tag (m_textureIDs s ! k) = tg \<Longrightarrow>
   (\<And>j. j < k \<Longrightarrow> tag (m_textureIDs s ! j) \<noteq> tg) \<Longrightarrow>
   FindTextureSlot tg s = Inr (int k)"
  unfolding FindTextureSlot_def by (rule FindTextureSlot_while_found) simp_all

lemma FindTextureSlot_no_match:
  "m_loadedTextures s \<le> int (length (m_textureIDs s)) \<Longrightarrow>
   (\<And>j. int j < m_loadedTextures s \<Longrightarrow> tag (m_textureIDs s ! j) \<noteq> tg) \<Longrightarrow>
   FindTextureSlot tg s = Inr (- 1)"
  unfolding FindTextureSlot_def by (rule FindTextureSlot_while_absent) simp_all

lemma FindTextureID_first_match:
  "k < length (m_textureIDs s) \<Longrightarrow> int k < m_loadedTextures s \<Longrightarrow>
   tag (m_textureIDs s ! k) = tg \<Longrightarrow>
   (\<And>j. j < k \<Longrightarrow> tag (m_textureIDs s ! j) \<noteq> tg) \<Longrightarrow>
   FindTextureID tg s = Inr (sint (ID (m_textureIDs s ! k)))"
  unfolding FindTextureID_def by (rule FindTextureID_while_found) simp_all

lemma FindTextureID_no_match:
  "m_loadedTextures s \<le> int (length (m_textureIDs s)) \<Longrightarrow>
   (\<And>j. int j < m_loadedTextures s \<Longrightarrow> tag (m_textureIDs s ! j) \<noteq> tg) \<Longrightarrow>
   FindTextureID tg s = Inr (- 1)"
  unfolding FindTextureID_def by (rule FindTextureID_while_absent) simp_all

lemma FindMaterial_empty:
  "m_objectMaterials s = [] \<Longrightarrow> FindMaterial tg material s = (False, material)"
  by (simp add: FindMaterial_def)

lemma FindMaterial_first_match:
  "k < length (m_objectMaterials s) \<Longrightarrow>
   OBJECT_MATERIAL.tag (m_objectMaterials s ! k) = tg \<Longrightarrow>
   (\<And>j. j < k \<Longrightarrow> OBJECT_MATERIAL.tag (m_objectMaterials s ! j) \<noteq> tg) \<Longrightarrow>
   FindMaterial tg material s =
     (True, material\<lparr>ambientColor := ambientColor (m_objectMaterials s ! k),
                     ambientStrength := ambientStrength (m_objectMaterials s ! k),
                     diffuseColor := diffuseColor (m_objectMaterials s ! k),
                     specularColor := specularColor (m_objectMaterials s ! k),
                     shininess := shininess (m_objectMaterials s ! k)\<rparr>)"
proof -
  assume k: "k < length (m_objectMaterials s)"
    and t: "OBJECT_MATERIAL.tag (m_objectMaterials s ! k) = tg"
    and f: "\<And>j. j < k \<Longrightarrow> OBJECT_MATERIAL.tag (m_objectMaterials s ! j) \<noteq> tg"
  from k have ne: "length (m_objectMaterials s) \<noteq> 0" by auto
  have "FindMaterial_while (m_objectMaterials s) tg material 0 False =
      material\<lparr>ambientColor := ambientColor (m_objectMaterials s ! k),
               ambientStrength := ambientStrength (m_objectMaterials s ! k),
               diffuseColor := diffuseColor (m_objectMaterials s ! k),
               specularColor := specularColor (m_objectMaterials s ! k),
               shininess := shininess (m_objectMaterials s ! k)\<rparr>"
    by (rule FindMaterial_while_found) (use k t f in simp_all)
  with ne show ?thesis by (simp add: FindMaterial_def)
qed

text \<open>Two entries share the tag "wood": the lookups take the one at index 0.\<close>

lemma lookups_of_a_duplicate_tag:
  "FindTextureSlot ''wood'' scene_two = Inr 0 \<and> FindTextureID ''wood'' scene_two = Inr 7 \<and>
   FindTextureSlot ''Books'' scene_two = Inr (- 1) \<and> FindTextureID ''Books'' scene_two = Inr (- 1)"
  by (simp add: FindTextureSlot_def FindTextureSlot_while.simps FindTextureID_def
      FindTextureID_while.simps scene_two_def in_array_def)

text \<open>
  C1. On a registry with no entry of the given tag, \<open>FindTextureID\<close> and
  \<open>FindTextureSlot\<close> return -1 (\<open>FindTextureID_no_match\<close>, \<open>FindTextureSlot_no_match\<close>),
  and with several entries of one tag all three lookups take the entry of lowest index
  (\<open>FindTextureID_first_match\<close>, \<open>FindTextureSlot_first_match\<close>,
  \<open>FindMaterial_first_match\<close>). \<open>FindMaterial\<close> is to report failure for an unknown tag,
  and does so only on an empty list: on the six materials of \<open>DefineObjectMaterials\<close> the
  lookup of the unknown tag "steel" returns \<open>true\<close> and leaves the output parameter as it
  was.
\<close>

theorem FindMaterial_unknown_tag_returns_true:
  "FindMaterial ''steel'' material (DefineObjectMaterials (s\<lparr>m_objectMaterials := []\<rparr>))
     = (True, material)"
  by (simp add: FindMaterial_def DefineObjectMaterials_def FindMaterial_while.simps
      goldMaterial_def cementMaterial_def woodMaterial_def tileMaterial_def
      glassMaterial_def clayMaterial_def)

section \<open>Properties of the shader settings\<close>

lemma not_registered:
  assumes "tg \<notin> set (registered_tags s)" "m_loadedTextures s \<le> int (length (m_textureIDs s))"
    "int j < m_loadedTextures s"
  shows "tag (m_textureIDs s ! j) \<noteq> tg"
proof
  assume e: "tag (m_textureIDs s ! j) = tg"
  from assms have j: "j < nat (m_loadedTextures s)" "j < length (m_textureIDs s)" by auto
  then have "registered_tags s ! j = tg"
    using e by (simp add: registered_tags_def)
  moreover have "j < length (registered_tags s)" using j by (simp add: registered_tags_def)
  ultimately have "tg \<in> set (registered_tags s)" using nth_mem by blast
  with assms(1) show False by simp
qed

lemma FindTextureSlot_while_total:
  "m_loadedTextures s \<le> int (length (m_textureIDs s)) \<Longrightarrow>
   \<exists>r. FindTextureSlot_while s tg slot index bFound = Inr r"
proof (induction s tg slot index bFound rule: FindTextureSlot_while.induct)
  case (1 s tg slot index bFound)
  show ?case
    by (subst FindTextureSlot_while.simps) (use 1 in \<open>auto simp: in_array_def\<close>)
qed

lemma FindTextureSlot_total:
  "registry_ok s \<Longrightarrow> \<exists>r. FindTextureSlot tg s = Inr r"
  by (simp add: FindTextureSlot_def registry_ok_def FindTextureSlot_while_total)

lemma SetShaderColor_shader:
  "m_pShaderManager s = Some sh \<Longrightarrow>
   SetShaderColor r g b a s =
     s\<lparr>m_pShaderManager := Some (sh @ [(''bUseTexture'', IntValue 0),
                                        (''objectColor'', Vec4Value (vec4 r g b a))])\<rparr>"
  by (simp add: SetShaderColor_def setIntValue_def setVec4Value_def g_UseTextureName_def
      g_ColorValueName_def)

lemma SetShaderTexture_shader:
  "m_pShaderManager s = Some sh \<Longrightarrow> FindTextureSlot tg s = Inr slot \<Longrightarrow>
   SetShaderTexture tg s =
     Inr (s\<lparr>m_pShaderManager := Some (sh @ [(''bUseTexture'', IntValue 1),
                                             (''objectTexture'', Sampler2DValue slot)])\<rparr>)"
  by (simp add: SetShaderTexture_def setIntValue_def setSampler2DValue_def g_UseTextureName_def
      g_TextureValueName_def)

text \<open>
  C9. With a shader manager, a count within the array and no stored entry of the given
  tag, \<open>SetShaderTexture\<close> returns normally, prints nothing, changes nothing but the
  shader manager, and sends it \<open>bUseTexture = 1\<close> and then the sampler \<open>objectTexture = -1\<close>,
  the value \<open>FindTextureSlot\<close> gives for a tag it does not find.
\<close>

theorem SetShaderTexture_absent_tag:
  assumes "m_pShaderManager s = Some sh" and "registry_ok s"
    and "textureTag \<notin> set (registered_tags s)"
  shows "SetShaderTexture textureTag s =
     Inr (s\<lparr>m_pShaderManager := Some (sh @ [(''bUseTexture'', IntValue 1),
                                             (''objectTexture'', Sampler2DValue (- 1))])\<rparr>)"
proof -
  have "FindTextureSlot textureTag s = Inr (- 1)"
    using assms by (intro FindTextureSlot_no_match not_registered) (auto simp: registry_ok_def)
  with assms(1) show ?thesis by (rule SetShaderTexture_shader)
qed

theorem SetShaderTexture_absent_tag_witness:
  "m_pShaderManager scene_two = Some [] \<and> registry_ok scene_two \<and>
   ''Books'' \<notin> set (registered_tags scene_two) \<and>
   SetShaderTexture ''Books'' scene_two =
     Inr (scene_two\<lparr>m_pShaderManager := Some ([] @ [(''bUseTexture'', IntValue 1),
                                             (''objectTexture'', Sampler2DValue (- 1))])\<rparr>)"
proof -
  have h1: "m_pShaderManager scene_two = Some []" by (simp add: scene_two_def)
  have h2: "registry_ok scene_two" by (simp add: scene_two_def registry_ok_def)
  have h3: "''Books'' \<notin> set (registered_tags scene_two)"
    by (simp add: scene_two_def registered_tags_def)
  from SetShaderTexture_absent_tag [OF h1 h2 h3] h1 h2 h3 show ?thesis by simp
qed

lemma uniform_value_append:
  "uniform_value (sh @ [(n1, v1), (n2, v2)]) n =
     (if n = n2 then Some v2 else if n = n1 then Some v1 else uniform_value sh n)"
  by (simp add: uniform_value_def)

lemma mode_call_step:
  assumes "is_mode_call c" "m_pShaderManager s = Some sh" "registry_ok s"
  shows "\<exists>s' sh'. scene_call ld g c s = Inr s' \<and> m_pShaderManager s' = Some sh' \<and>
           registry_ok s' \<and> uniform_value sh' ''bUseTexture'' = Some (IntValue (mode_of c))"
proof (cases c)
  case (Call_SetShaderColor r gr b a)
  with assms show ?thesis
    by (simp add: SetShaderColor_shader uniform_value_append mode_of_def registry_ok_def)
next
  case (Call_SetShaderTexture tg)
  from FindTextureSlot_total [OF assms(3)] obtain slot where "FindTextureSlot tg s = Inr slot"
    by blast
  with assms Call_SetShaderTexture show ?thesis
    by (simp add: SetShaderTexture_shader uniform_value_append mode_of_def registry_ok_def)
qed (use assms in \<open>simp_all add: is_mode_call_def\<close>)

lemma mode_calls_last:
  "cs \<noteq> [] \<Longrightarrow> list_all is_mode_call cs \<Longrightarrow> m_pShaderManager s = Some sh \<Longrightarrow>
   registry_ok s \<Longrightarrow>
   \<exists>s' sh'. scene_calls ld g cs s = Inr s' \<and> m_pShaderManager s' = Some sh' \<and>
     registry_ok s' \<and> uniform_value sh' ''bUseTexture'' = Some (IntValue (mode_of (last cs)))"
proof (induction cs arbitrary: s sh)
  case Nil
  then show ?case by simp
next
  case (Cons c cs)
  from Cons.prems have c: "is_mode_call c" and cs: "list_all is_mode_call cs" by simp_all
  from mode_call_step [OF c Cons.prems(3) Cons.prems(4)] obtain s1 sh1 where
    s1: "scene_call ld g c s = Inr s1" "m_pShaderManager s1 = Some sh1" "registry_ok s1"
      "uniform_value sh1 ''bUseTexture'' = Some (IntValue (mode_of c))"
    by blast
  show ?case
  proof (cases "cs = []")
    case True
    with s1 show ?thesis by simp
  next
    case False
    from Cons.IH [OF False cs s1(2) s1(3)] obtain s' sh' where
      "scene_calls ld g cs s1 = Inr s'" "m_pShaderManager s' = Some sh'" "registry_ok s'"
      "uniform_value sh' ''bUseTexture'' = Some (IntValue (mode_of (last cs)))"
      by blast
    with s1(1) False show ?thesis by simp
  qed
qed


text \<open>
  C8. With a shader manager and a count within the array: \<open>SetShaderColor\<close> sends
  \<open>bUseTexture = 0\<close> and then the colour; \<open>SetShaderTexture\<close> sends \<open>bUseTexture = 1\<close> and
  then the sampler; and after any non-empty sequence of the two calls the value of
  \<open>bUseTexture\<close> is the one of the last call, 1 for a texture and 0 for a colour.
\<close>

theorem draw_mode_follows_last_call:
  "m_pShaderManager s = Some sh \<Longrightarrow> registry_ok s \<Longrightarrow>
   SetShaderColor r gr b a s =
     s\<lparr>m_pShaderManager := Some (sh @ [(''bUseTexture'', IntValue 0),
                                        (''objectColor'', Vec4Value (vec4 r gr b a))])\<rparr> \<and>
   (\<exists>slot. SetShaderTexture tg s =
     Inr (s\<lparr>m_pShaderManager := Some (sh @ [(''bUseTexture'', IntValue 1),
                                             (''objectTexture'', Sampler2DValue slot)])\<rparr>)) \<and>
   (cs \<noteq> [] \<and> list_all is_mode_call cs \<longrightarrow>
     (\<exists>s' sh'. scene_calls ld g cs s = Inr s' \<and> m_pShaderManager s' = Some sh' \<and>
        uniform_value sh' ''bUseTexture'' = Some (IntValue (mode_of (last cs)))))"
proof -
  assume sh: "m_pShaderManager s = Some sh" and ok: "registry_ok s"
  have A: "SetShaderColor r gr b a s =
     s\<lparr>m_pShaderManager := Some (sh @ [(''bUseTexture'', IntValue 0),
                                        (''objectColor'', Vec4Value (vec4 r gr b a))])\<rparr>"
    using sh by (rule SetShaderColor_shader)
  from FindTextureSlot_total [OF ok] obtain slot where "FindTextureSlot tg s = Inr slot"
    by blast
  with sh have B: "\<exists>slot. SetShaderTexture tg s =
     Inr (s\<lparr>m_pShaderManager := Some (sh @ [(''bUseTexture'', IntValue 1),
                                             (''objectTexture'', Sampler2DValue slot)])\<rparr>)"
    using SetShaderTexture_shader by blast
  have C: "cs \<noteq> [] \<and> list_all is_mode_call cs \<longrightarrow>
     (\<exists>s' sh'. scene_calls ld g cs s = Inr s' \<and> m_pShaderManager s' = Some sh' \<and>
        uniform_value sh' ''bUseTexture'' = Some (IntValue (mode_of (last cs))))"
  proof
    assume "cs \<noteq> [] \<and> list_all is_mode_call cs"
    then have "cs \<noteq> []" "list_all is_mode_call cs" by simp_all
    from mode_calls_last [OF this sh ok, of ld g] show
      "\<exists>s' sh'. scene_calls ld g cs s = Inr s' \<and> m_pShaderManager s' = Some sh' \<and>
        uniform_value sh' ''bUseTexture'' = Some (IntValue (mode_of (last cs)))"
      by blast
  qed
  from A B C show ?thesis by blast
qed

theorem draw_mode_follows_last_call_witness:
  "m_pShaderManager scene_two = Some [] \<and> registry_ok scene_two \<and>
   [Call_SetShaderTexture ''wood'', Call_SetShaderColor 1 0 0 1] \<noteq> [] \<and>
   list_all is_mode_call [Call_SetShaderTexture ''wood'', Call_SetShaderColor 1 0 0 1] \<and>
   (\<exists>s' sh'. scene_calls two_files glm_terms
        [Call_SetShaderTexture ''wood'', Call_SetShaderColor 1 0 0 1] scene_two = Inr s' \<and>
      m_pShaderManager s' = Some sh' \<and>
      uniform_value sh' ''bUseTexture'' = Some (IntValue 0))"
proof -
  have h1: "m_pShaderManager scene_two = Some []" by (simp add: scene_two_def)
  have h2: "registry_ok scene_two" by (simp add: scene_two_def registry_ok_def)
  have h3: "list_all is_mode_call [Call_SetShaderTexture ''wood'', Call_SetShaderColor 1 0 0 1]"
    by (simp add: is_mode_call_def)
  from draw_mode_follows_last_call [OF h1 h2, of 1 0 0 1 "''wood''"
      "[Call_SetShaderTexture ''wood'', Call_SetShaderColor 1 0 0 1]" two_files glm_terms]
    h1 h2 h3
  show ?thesis by (simp add: mode_of_def)
qed

text \<open>
  C2. With a shader manager, \<open>SetTransformations\<close> changes nothing but the shader manager
  and sends it, under the name "model", the product of the translation, the rotation
  about X, the rotation about Y, the rotation about Z and the scaling, in this order, each
  angle passed through \<open>glm::radians\<close>.
\<close>

theorem SetTransformations_model_matrix:
  "m_pShaderManager s = Some sh \<Longrightarrow>
   SetTransformations g scaleXYZ XrotationDegrees YrotationDegrees ZrotationDegrees positionXYZ s =
     s\<lparr>m_pShaderManager := Some (sh @ [(''model'', Mat4Value
        (glm_mul g (glm_mul g (glm_mul g (glm_mul g
           (glm_translate g positionXYZ)
           (glm_rotate g (glm_radians g XrotationDegrees) (vec3 1 0 0)))
           (glm_rotate g (glm_radians g YrotationDegrees) (vec3 0 1 0)))
           (glm_rotate g (glm_radians g ZrotationDegrees) (vec3 0 0 1)))
           (glm_scale g scaleXYZ)))])\<rparr>"
  by (simp add: SetTransformations_def setMat4Value_def g_ModelName_def)

theorem SetTransformations_model_matrix_witness:
  "m_pShaderManager scene_two = Some [] \<and>
   SetTransformations glm_terms (vec3 2 1 1) 90 0 180 (vec3 0 7 (- 10)) scene_two =
     scene_two\<lparr>m_pShaderManager := Some [(''model'', Mat4Value
        (Mul (Mul (Mul (Mul (Translate (vec3 0 7 (- 10)))
           (Rotate (355 / 226) (vec3 1 0 0)))
           (Rotate 0 (vec3 0 1 0)))
           (Rotate (355 / 113) (vec3 0 0 1)))
           (Scale (vec3 2 1 1))))]\<rparr>"
proof -
  have h1: "m_pShaderManager scene_two = Some []" by (simp add: scene_two_def)
  from SetTransformations_model_matrix [OF h1, of glm_terms "vec3 2 1 1" 90 0 180 "vec3 0 7 (- 10)"] h1
  show ?thesis by (simp add: glm_terms_def)
qed

section \<open>Properties of the stacked-books loop\<close>

text \<open>What the rounding is built from: the binade of a positive number, and the nearest integer.\<close>

lemma binade_bounds:
  "0 < x \<Longrightarrow> 2 powi (binade x) \<le> x \<and> x < 2 powi (binade x + 1)"
proof (induction x rule: binade.induct)
  case (1 x)
  show ?case
  proof (cases "2 \<le> x")
    case True
    then have b: "binade x = binade (x / 2) + 1" by (subst binade.simps) simp
    from True have "0 < x / 2" by simp
    from "1.IH"(1) [OF True this]
    have "2 powi (binade (x / 2)) \<le> x / 2" "x / 2 < 2 powi (binade (x / 2) + 1)" by simp_all
    then have "2 * 2 powi (binade (x / 2)) \<le> x" "x < 2 * 2 powi (binade (x / 2) + 1)"
      by simp_all
    then show ?thesis by (simp add: b power_int_add)
  next
    case False
    show ?thesis
    proof (cases "x < 1")
      case True
      with "1.prems" False have b: "binade x = binade (x * 2) - 1" by (subst binade.simps) simp
      from "1.prems" True have c: "0 < x \<and> x < 1" by simp
      from "1.prems" have "0 < x * 2" by simp
      from "1.IH"(2) [OF False c this]
      have "2 powi (binade (x * 2)) \<le> x * 2" "x * 2 < 2 powi (binade (x * 2) + 1)" by simp_all
      moreover have "2 powi (binade (x * 2) + 1) = 2 * (2::real) powi binade (x * 2)"
        by (simp add: power_int_add)
      ultimately have "2 powi (binade (x * 2)) / 2 \<le> x" "x < 2 powi (binade (x * 2))"
        by simp_all
      then show ?thesis by (simp add: b power_int_diff)
    next
      case ge: False
      with False have "binade x = 0" by (subst binade.simps) simp
      with False ge show ?thesis by simp
    qed
  qed
qed

lemma round_to_even_nearest: "\<bar>real_of_int (round_to_even y) - y\<bar> \<le> 1 / 2"
  by (simp add: round_to_even_def Let_def)

text \<open>The literals of the loop, as \<open>float\<close> and as \<open>double\<close>.\<close>

lemma float_literals:
  "to_float 10.0 = 10" "to_float 0.0 = 0" "to_float 2.5 = 5 / 2"
  "to_float 2.8 = 11744051 / 4194304" "to_float 0.7 = 11744051 / 16777216"
  "to_float 0.1 = 13421773 / 134217728" "to_float 1.2 = 5033165 / 4194304"
  "to_float (to_double 0.9) = 7549747 / 8388608"
  by (simp_all add: to_float_def to_double_def round_binary_def binade.simps round_to_even_def
      Let_def)

lemma double_literals:
  "to_double 0.10 = 3602879701896397 / 36028797018963968"
  "to_double 4.23 = 1190639151486075 / 281474976710656"
  "to_double 1.03 = 4638707616191611 / 4503599627370496"
  "to_double 0.13 = 1170935903116329 / 9007199254740992"
  "to_double 0.15 = 5404319552844595 / 36028797018963968"
  "to_double 0.12 = 1080863910568919 / 9007199254740992"
  by (simp_all add: to_double_def round_binary_def binade.simps round_to_even_def Let_def)

text \<open>
  C6, as the code has it. The stacked-books loop runs five times, for \<open>i\<close> from 0 to 4.
  Each iteration sets the transformation, binds the texture "Books" for \<open>i\<close> from 0 to 3 and
  "Book5" for \<open>i = 4\<close>, the material "wood" for even \<open>i\<close> and "clay" for odd \<open>i\<close>, and draws one
  box. The Z position is the \<open>float\<close> next to -1.2, and the Y position starts at the \<open>float\<close>
  next to 2.8. After each draw \<open>yPos += 0.10\<close>, and \<open>yRot\<close>, \<open>xScale\<close>, \<open>zScale\<close> change by
  \<open>+= 4.23\<close>, \<open>+= 0.13\<close>, \<open>+= 0.12\<close> for even \<open>i\<close> and by \<open>-= 1.03\<close>, \<open>-= 0.15\<close>, \<open>-= 0.10\<close> for
  odd \<open>i\<close>, each sum computed in \<open>double\<close> and rounded to \<open>float\<close>. The values passed are the
  fractions below: the Y positions are about 2.79999995, 2.89999986, 2.99999976, 3.09999967
  and 3.19999957, the rotations 10, 14.2299995, 13.1999998, 17.4300003 and 16.3999996, and the
  locals end as about \<open>yRot = 20.6299992\<close>, \<open>yPos = 3.29999948\<close>, \<open>xPos = -2.5\<close>,
  \<open>xScale = 0.79000002\<close>, \<open>zScale = 1.05999994\<close>.
\<close>

theorem BookGenerator_calls:
  "BookGenerator material =
     ([Call_SetTransformations
         (vec3 (11744051 / 16777216) (13421773 / 134217728) (7549747 / 8388608))
         0 10 0
         (vec3 (- (5 / 2)) (11744051 / 4194304) (- (5033165 / 4194304))),
       Call_SetShaderTexture ''Books'', Call_SetShaderMaterial ''wood'' material,
       Call_basicMeshes DrawBoxMesh,
       Call_SetTransformations
         (vec3 (13925089 / 16777216) (13421773 / 134217728) (2139095 / 2097152))
         0 (3730309 / 262144) 0
         (vec3 (- (5 / 2)) (12163481 / 4194304) (- (5033165 / 4194304))),
       Call_SetShaderTexture ''Books'', Call_SetShaderMaterial ''clay'' material,
       Call_basicMeshes DrawBoxMesh,
       Call_SetTransformations
         (vec3 (11408507 / 16777216) (13421773 / 134217728) (7717519 / 8388608))
         0 (13841203 / 1048576) 0
         (vec3 (- (5 / 2)) (12582911 / 4194304) (- (5033165 / 4194304))),
       Call_SetShaderTexture ''Books'', Call_SetShaderMaterial ''wood'' material,
       Call_basicMeshes DrawBoxMesh,
       Call_SetTransformations
         (vec3 (13589545 / 16777216) (13421773 / 134217728) (1090519 / 1048576))
         0 (2284585 / 131072) 0
         (vec3 (- (5 / 2)) (13002341 / 4194304) (- (5033165 / 4194304))),
       Call_SetShaderTexture ''Books'', Call_SetShaderMaterial ''clay'' material,
       Call_basicMeshes DrawBoxMesh,
       Call_SetTransformations
         (vec3 (11072963 / 16777216) (13421773 / 134217728) (7885291 / 8388608))
         0 (8598323 / 524288) 0
         (vec3 (- (5 / 2)) (13421771 / 4194304) (- (5033165 / 4194304))),
       Call_SetShaderTexture ''Book5'', Call_SetShaderMaterial ''wood'' material,
       Call_basicMeshes DrawBoxMesh],
      (10816061 / 524288, 13841201 / 4194304, - (5 / 2), 13254001 / 16777216,
       2222981 / 2097152))"
  by (simp add: BookGenerator_def BookGenerator_for.simps plus_assign_def minus_assign_def
      to_float_def to_double_def round_binary_def binade.simps round_to_even_def Let_def)

text \<open>
  C6, as the claim has it, fails: the second Y position is not the first plus 0.10, and the
  third is not 3.0, although 3.0 is a \<open>float\<close>.
\<close>

theorem BookGenerator_y_step_is_not_a_tenth:
  "book_y_positions woodMaterial ! 1 - book_y_positions woodMaterial ! 0 \<noteq> 0.10 \<and>
   book_y_positions woodMaterial ! 2 \<noteq> 3.0"
  by (simp add: book_y_positions_def BookGenerator_def BookGenerator_for.simps plus_assign_def
      minus_assign_def to_float_def to_double_def round_binary_def binade.simps
      round_to_even_def Let_def)

text \<open>
  Run on a scene manager with a shader manager and a count within the array, a sequence of
  rendering calls ends without a fault, leaves the registry as it was and makes its mesh
  calls in order; the calls of the stacked-books loop draw five boxes.
\<close>

lemma SetShaderMaterial_total:
  "m_pShaderManager s = Some sh \<Longrightarrow>
   \<exists>sh'. SetShaderMaterial tg material s = Inr (s\<lparr>m_pShaderManager := Some sh'\<rparr>)"
proof -
  assume sh: "m_pShaderManager s = Some sh"
  have same: "s\<lparr>m_pShaderManager := Some sh\<rparr> = s" using sh by simp
  show ?thesis
  proof (cases "length (m_objectMaterials s) > 0 \<and> fst (FindMaterial tg material s)")
    case True
    with sh show ?thesis
      by (auto simp: SetShaderMaterial_def Let_def split: prod.splits)
  next
    case False
    then have "SetShaderMaterial tg material s = Inr s"
      by (auto simp: SetShaderMaterial_def Let_def split: prod.splits)
    with same show ?thesis by metis
  qed
qed

lemma render_call_step:
  assumes "is_render_call c" "m_pShaderManager s = Some sh" "registry_ok s"
  shows "\<exists>s' sh'. scene_call ld g c s = Inr s' \<and> m_pShaderManager s' = Some sh' \<and>
     m_loadedTextures s' = m_loadedTextures s \<and> m_textureIDs s' = m_textureIDs s \<and>
     m_basicMeshes s' = m_basicMeshes s @ mesh_calls [c]"
proof (cases c)
  case (Call_SetShaderTexture tg)
  from FindTextureSlot_total [OF assms(3)] obtain slot where "FindTextureSlot tg s = Inr slot"
    by blast
  with assms Call_SetShaderTexture show ?thesis by (simp add: SetShaderTexture_shader)
next
  case (Call_SetShaderMaterial tg material)
  from SetShaderMaterial_total [OF assms(2)] obtain sh' where
    "SetShaderMaterial tg material s = Inr (s\<lparr>m_pShaderManager := Some sh'\<rparr>)" by blast
  with Call_SetShaderMaterial show ?thesis by simp
qed (use assms in \<open>simp_all add: is_render_call_def SetTransformations_def SetShaderColor_def
      SetTextureUVScale_def Let_def\<close>)

lemma mesh_calls_Cons: "mesh_calls (c # cs) = mesh_calls [c] @ mesh_calls cs"
  by (cases c) simp_all

lemma render_calls_run:
  "list_all is_render_call cs \<Longrightarrow> m_pShaderManager s = Some sh \<Longrightarrow> registry_ok s \<Longrightarrow>
   \<exists>s' sh'. scene_calls ld g cs s = Inr s' \<and> m_pShaderManager s' = Some sh' \<and>
     m_loadedTextures s' = m_loadedTextures s \<and> m_textureIDs s' = m_textureIDs s \<and>
     m_basicMeshes s' = m_basicMeshes s @ mesh_calls cs"
proof (induction cs arbitrary: s sh)
  case Nil
  then show ?case by simp
next
  case (Cons c cs)
  from Cons.prems have c: "is_render_call c" and cs: "list_all is_render_call cs" by simp_all
  from render_call_step [OF c Cons.prems(2,3), of ld g] obtain s1 sh1 where
    s1: "scene_call ld g c s = Inr s1" "m_pShaderManager s1 = Some sh1"
      "m_loadedTextures s1 = m_loadedTextures s" "m_textureIDs s1 = m_textureIDs s"
      "m_basicMeshes s1 = m_basicMeshes s @ mesh_calls [c]" by blast
  from s1(3,4) Cons.prems(3) have ok1: "registry_ok s1" by (simp add: registry_ok_def)
  from Cons.IH [OF cs s1(2) ok1] obtain s' sh' where
    s': "scene_calls ld g cs s1 = Inr s'" "m_pShaderManager s' = Some sh'"
      "m_loadedTextures s' = m_loadedTextures s1" "m_textureIDs s' = m_textureIDs s1"
      "m_basicMeshes s' = m_basicMeshes s1 @ mesh_calls cs" by blast
  have "mesh_calls (c # cs) = mesh_calls [c] @ mesh_calls cs" by (rule mesh_calls_Cons)
  with s1 s' show ?case by simp
qed

lemma BookGenerator_draws_five_boxes:
  assumes "m_pShaderManager s = Some sh" "registry_ok s"
  shows "\<exists>s'. scene_calls ld g (fst (BookGenerator material)) s = Inr s' \<and>
     m_loadedTextures s' = m_loadedTextures s \<and> m_textureIDs s' = m_textureIDs s \<and>
     m_basicMeshes s' = m_basicMeshes s @
       [DrawBoxMesh, DrawBoxMesh, DrawBoxMesh, DrawBoxMesh, DrawBoxMesh]"
proof -
  have r: "list_all is_render_call (fst (BookGenerator material))"
    by (simp add: BookGenerator_def BookGenerator_for.simps is_render_call_def Let_def)
  have m: "mesh_calls (fst (BookGenerator material)) =
      [DrawBoxMesh, DrawBoxMesh, DrawBoxMesh, DrawBoxMesh, DrawBoxMesh]"
    by (simp add: BookGenerator_def BookGenerator_for.simps)
  from render_calls_run [OF r assms, of ld g] m show ?thesis by auto
qed

section \<open>Properties of the view manager\<close>

lemma Mouse_Scroll_Callback_floor:
  assumes "mono fl" "fl (1 / 2) = 1 / 2" "1 / 2 \<le> gMovementSpeed v"
  shows "1 / 2 \<le> gMovementSpeed (Mouse_Scroll_Callback fl xOffset yOffset v)"
proof -
  have "1 / 2 \<le> gMovementSpeed v + 0.5" using assms(3) by simp
  with assms(1) have "fl (1 / 2) \<le> fl (gMovementSpeed v + 0.5)" by (rule monoD)
  then have up: "1 / 2 \<le> fl (gMovementSpeed v + 0.5)" using assms(2) by simp
  have down: "1 / 2 \<le> std_max 0.5 x" for x by (simp add: std_max_def)
  show ?thesis using up down assms(3) by (simp add: Mouse_Scroll_Callback_def)
qed

lemma Mouse_Scroll_Callbacks_floor:
  "mono fl \<Longrightarrow> fl (1 / 2) = 1 / 2 \<Longrightarrow> 1 / 2 \<le> gMovementSpeed v \<Longrightarrow>
   1 / 2 \<le> gMovementSpeed (Mouse_Scroll_Callbacks fl offsets v)"
proof (induction offsets arbitrary: v)
  case Nil
  then show ?case by simp
next
  case (Cons p offsets)
  obtain xOffset yOffset where p: "p = (xOffset, yOffset)" by (cases p)
  have "1 / 2 \<le> gMovementSpeed (Mouse_Scroll_Callback fl xOffset yOffset v)"
    using Cons.prems by (rule Mouse_Scroll_Callback_floor)
  with Cons.IH [OF Cons.prems(1) Cons.prems(2)] p show ?case by simp
qed

text \<open>
  C3. \<open>gMovementSpeed\<close> starts at 2.5 and, after any finite sequence of calls of
  \<open>Mouse_Scroll_Callback\<close> with any offsets, is at least 0.5. This holds for every rounding
  \<open>fl\<close> of the sum and the difference that is monotone and leaves 0.5 as it is, as rounding
  to the nearest \<open>float\<close> does, and so for exact arithmetic too.
\<close>

theorem gMovementSpeed_never_below_half:
  "mono fl \<Longrightarrow> fl (1 / 2) = 1 / 2 \<Longrightarrow>
   gMovementSpeed (ViewManager_new pShaderManager camera) = 2.5 \<and>
   1 / 2 \<le> gMovementSpeed (Mouse_Scroll_Callbacks fl offsets (ViewManager_new pShaderManager camera))"
proof -
  assume m: "mono fl" and h: "fl (1 / 2) = 1 / 2"
  have i: "gMovementSpeed (ViewManager_new pShaderManager camera) = 2.5"
    by (simp add: ViewManager_new_def)
  then have "1 / 2 \<le> gMovementSpeed (ViewManager_new pShaderManager camera)" by simp
  with m h have "1 / 2 \<le> gMovementSpeed
      (Mouse_Scroll_Callbacks fl offsets (ViewManager_new pShaderManager camera))"
    by (rule Mouse_Scroll_Callbacks_floor)
  with i show ?thesis by simp
qed

lemma mono_to_quarters: "mono to_quarters"
  by (rule monoI) (simp add: to_quarters_def divide_right_mono floor_mono)

theorem gMovementSpeed_never_below_half_witness:
  "mono to_quarters \<and> to_quarters (1 / 2) = 1 / 2 \<and>
   gMovementSpeed (Mouse_Scroll_Callbacks to_quarters
      [(0, 1), (0, - 1), (0, - 3), (0, - 1), (0, - 1), (0, - 1), (0, - 1), (0, 0)]
      (ViewManager_new (None :: mat4 ShaderManager option) camera_origin)) = 1 / 2"
proof -
  have h1: "mono to_quarters" by (rule mono_to_quarters)
  have h2: "to_quarters (1 / 2) = 1 / 2" by (simp add: to_quarters_def)
  have "gMovementSpeed (Mouse_Scroll_Callbacks to_quarters
      [(0, 1), (0, - 1), (0, - 3), (0, - 1), (0, - 1), (0, - 1), (0, - 1), (0, 0)]
      (ViewManager_new (None :: mat4 ShaderManager option) camera_origin)) \<le> 1 / 2"
    by (simp add: Mouse_Scroll_Callback_def ViewManager_new_def std_max_def to_quarters_def)
  with gMovementSpeed_never_below_half [OF h1 h2, of "None :: mat4 ShaderManager option" camera_origin
      "[(0, 1), (0, - 1), (0, - 3), (0, - 1), (0, - 1), (0, - 1), (0, - 1), (0, 0)]"] h1 h2
  show ?thesis by simp
qed

lemma ProcessKeyboardEvents_P:
  assumes "g_pCamera v = Some c" "pressed GLFW_KEY_P" "\<not> pressed GLFW_KEY_O"
  shows "\<exists>c'. g_pCamera (ProcessKeyboardEvents cam pressed v) = Some c' \<and>
     bOrthographicProjection (ProcessKeyboardEvents cam pressed v) = False \<and>
     Position c' = vec3 0 5.5 8 \<and> Front c' = vec3 0 (- 0.5) (- 2) \<and>
     Up c' = vec3 0 1 0 \<and> Zoom c' = 80"
  using assms by (simp add: ProcessKeyboardEvents_def Let_def)

lemma ProcessKeyboardEvents_O:
  assumes "g_pCamera v = Some c" "pressed GLFW_KEY_O"
  shows "\<exists>c'. g_pCamera (ProcessKeyboardEvents cam pressed v) = Some c' \<and>
     bOrthographicProjection (ProcessKeyboardEvents cam pressed v) = True \<and>
     Position c' = vec3 0 5 10 \<and> Front c' = vec3 0 0 (- 1) \<and>
     Up c' = vec3 0 1 0 \<and> Zoom c' = 1"
  using assms by (simp add: ProcessKeyboardEvents_def Let_def split: prod.splits)

lemma ProcessKeyboardEvents_camera:
  "g_pCamera v = Some c \<Longrightarrow> \<exists>c'. g_pCamera (ProcessKeyboardEvents cam pressed v) = Some c'"
  by (simp add: ProcessKeyboardEvents_def Let_def split: prod.splits)

lemma ProcessKeyboardEvents_shader:
  "ViewManager.m_pShaderManager (ProcessKeyboardEvents cam pressed v) = ViewManager.m_pShaderManager v"
  by (simp add: ProcessKeyboardEvents_def Let_def split: prod.splits option.splits)

lemma PrepareSceneView_projection:
  assumes "g_pCamera v = Some c" "ViewManager.m_pShaderManager v = Some sh"
  shows "\<exists>v' c' sh'. PrepareSceneView g cam currentFrame pressed v = Inr v' \<and>
     g_pCamera v' = Some c' \<and> ViewManager.m_pShaderManager v' = Some sh' \<and>
     g_pCamera v' = g_pCamera (ProcessKeyboardEvents cam pressed
        (v\<lparr>gDeltaTime := currentFrame - gLastFrame v, gLastFrame := currentFrame\<rparr>)) \<and>
     bOrthographicProjection v' = bOrthographicProjection (ProcessKeyboardEvents cam pressed
        (v\<lparr>gDeltaTime := currentFrame - gLastFrame v, gLastFrame := currentFrame\<rparr>)) \<and>
     uniform_value sh' ''projection'' = Some (Mat4Value
       (if bOrthographicProjection v'
        then glm_ortho g (- 6.25) 6.25 (- 5) 5 0.1 100
        else glm_perspective g (glm_radians g (Zoom c')) (1000 / 800) 0.1 100))"
proof -
  let ?v1 = "v\<lparr>gDeltaTime := currentFrame - gLastFrame v, gLastFrame := currentFrame\<rparr>"
  let ?v2 = "ProcessKeyboardEvents cam pressed ?v1"
  have "g_pCamera ?v1 = Some c" using assms(1) by simp
  from ProcessKeyboardEvents_camera [OF this, of cam pressed] obtain c' where
    c': "g_pCamera ?v2 = Some c'" by blast
  have sh: "ViewManager.m_pShaderManager ?v2 = Some sh"
    using assms(2) by (simp add: ProcessKeyboardEvents_shader)
  show ?thesis
    using c' sh
    by (simp add: PrepareSceneView_def Let_def uniform_value_def
        setMat4Value_def setVec3Value_def g_ViewName_def g_ProjectionName_def
        WINDOW_WIDTH_def WINDOW_HEIGHT_def)
qed


text \<open>
  C4. With a camera: when P is pressed and O is not, \<open>ProcessKeyboardEvents\<close> selects the
  perspective projection and sets the camera to Position (0, 5.5, 8), Front (0, -0.5, -2),
  Up (0, 1, 0), Zoom 80, whatever the camera was and whatever other keys are pressed; when
  O is pressed it selects the orthographic projection and sets Position (0, 5, 10),
  Front (0, 0, -1), Up (0, 1, 0), Zoom 1. With a shader manager too, \<open>PrepareSceneView\<close>
  processes the keys and sends, under the name "projection", the perspective matrix for
  \<open>radians(Zoom)\<close>, aspect 1000/800, near 0.1 and far 100 in perspective mode, and the
  orthographic matrix for -6.25, 6.25, -5, 5, near 0.1 and far 100 in orthographic mode.
\<close>

theorem projection_presets:
  "g_pCamera v = Some c \<Longrightarrow>
   (pressed GLFW_KEY_P \<and> \<not> pressed GLFW_KEY_O \<longrightarrow>
      (\<exists>c'. g_pCamera (ProcessKeyboardEvents cam pressed v) = Some c' \<and>
         bOrthographicProjection (ProcessKeyboardEvents cam pressed v) = False \<and>
         Position c' = vec3 0 5.5 8 \<and> Front c' = vec3 0 (- 0.5) (- 2) \<and>
         Up c' = vec3 0 1 0 \<and> Zoom c' = 80)) \<and>
   (pressed GLFW_KEY_O \<longrightarrow>
      (\<exists>c'. g_pCamera (ProcessKeyboardEvents cam pressed v) = Some c' \<and>
         bOrthographicProjection (ProcessKeyboardEvents cam pressed v) = True \<and>
         Position c' = vec3 0 5 10 \<and> Front c' = vec3 0 0 (- 1) \<and>
         Up c' = vec3 0 1 0 \<and> Zoom c' = 1)) \<and>
   (ViewManager.m_pShaderManager v = Some sh \<longrightarrow>
      (\<exists>v' c' sh'. PrepareSceneView g cam currentFrame pressed v = Inr v' \<and>
         g_pCamera v' = Some c' \<and> ViewManager.m_pShaderManager v' = Some sh' \<and>
         g_pCamera v' = g_pCamera (ProcessKeyboardEvents cam pressed
            (v\<lparr>gDeltaTime := currentFrame - gLastFrame v, gLastFrame := currentFrame\<rparr>)) \<and>
         bOrthographicProjection v' = bOrthographicProjection (ProcessKeyboardEvents cam pressed
            (v\<lparr>gDeltaTime := currentFrame - gLastFrame v, gLastFrame := currentFrame\<rparr>)) \<and>
         uniform_value sh' ''projection'' = Some (Mat4Value
           (if bOrthographicProjection v'
            then glm_ortho g (- 6.25) 6.25 (- 5) 5 0.1 100
            else glm_perspective g (glm_radians g (Zoom c')) (1000 / 800) 0.1 100))))"
proof -
  assume c: "g_pCamera v = Some c"
  show ?thesis
  proof (intro conjI impI)
    assume "pressed GLFW_KEY_P \<and> \<not> pressed GLFW_KEY_O"
    then show "\<exists>c'. g_pCamera (ProcessKeyboardEvents cam pressed v) = Some c' \<and>
         bOrthographicProjection (ProcessKeyboardEvents cam pressed v) = False \<and>
         Position c' = vec3 0 5.5 8 \<and> Front c' = vec3 0 (- 0.5) (- 2) \<and>
         Up c' = vec3 0 1 0 \<and> Zoom c' = 80"
      using ProcessKeyboardEvents_P [OF c] by blast
  next
    assume "pressed GLFW_KEY_O"
    then show "\<exists>c'. g_pCamera (ProcessKeyboardEvents cam pressed v) = Some c' \<and>
         bOrthographicProjection (ProcessKeyboardEvents cam pressed v) = True \<and>
         Position c' = vec3 0 5 10 \<and> Front c' = vec3 0 0 (- 1) \<and>
         Up c' = vec3 0 1 0 \<and> Zoom c' = 1"
      using ProcessKeyboardEvents_O [OF c] by blast
  next
    assume "ViewManager.m_pShaderManager v = Some sh"
    with c show "\<exists>v' c' sh'. PrepareSceneView g cam currentFrame pressed v = Inr v' \<and>
         g_pCamera v' = Some c' \<and> ViewManager.m_pShaderManager v' = Some sh' \<and>
         g_pCamera v' = g_pCamera (ProcessKeyboardEvents cam pressed
            (v\<lparr>gDeltaTime := currentFrame - gLastFrame v, gLastFrame := currentFrame\<rparr>)) \<and>
         bOrthographicProjection v' = bOrthographicProjection (ProcessKeyboardEvents cam pressed
            (v\<lparr>gDeltaTime := currentFrame - gLastFrame v, gLastFrame := currentFrame\<rparr>)) \<and>
         uniform_value sh' ''projection'' = Some (Mat4Value
           (if bOrthographicProjection v'
            then glm_ortho g (- 6.25) 6.25 (- 5) 5 0.1 100
            else glm_perspective g (glm_radians g (Zoom c')) (1000 / 800) 0.1 100))"
      by (rule PrepareSceneView_projection)
  qed
qed

theorem projection_presets_witness:
  "g_pCamera (ViewManager_new (Some ([] :: mat4 ShaderManager)) camera_origin) =
     Some (camera_origin\<lparr>Position := vec3 0.0 5.5 8.0, Front := vec3 0.0 (- 0.5) (- 2.0),
                          Up := vec3 0.0 1.0 0.0, Zoom := 80\<rparr>) \<and>
   (\<exists>c'. g_pCamera (ProcessKeyboardEvents camera_axes (\<lambda>k. k = GLFW_KEY_P \<or> k = GLFW_KEY_W)
              (ViewManager_new (Some ([] :: mat4 ShaderManager)) camera_origin)) = Some c' \<and>
      bOrthographicProjection (ProcessKeyboardEvents camera_axes
              (\<lambda>k. k = GLFW_KEY_P \<or> k = GLFW_KEY_W)
              (ViewManager_new (Some ([] :: mat4 ShaderManager)) camera_origin)) = False \<and>
      Position c' = vec3 0 5.5 8 \<and> Front c' = vec3 0 (- 0.5) (- 2) \<and>
      Up c' = vec3 0 1 0 \<and> Zoom c' = 80) \<and>
   (\<exists>c'. g_pCamera (ProcessKeyboardEvents camera_axes (\<lambda>k. k = GLFW_KEY_P \<or> k = GLFW_KEY_O)
              (ViewManager_new (Some ([] :: mat4 ShaderManager)) camera_origin)) = Some c' \<and>
      bOrthographicProjection (ProcessKeyboardEvents camera_axes
              (\<lambda>k. k = GLFW_KEY_P \<or> k = GLFW_KEY_O)
              (ViewManager_new (Some ([] :: mat4 ShaderManager)) camera_origin)) = True \<and>
      Position c' = vec3 0 5 10 \<and> Front c' = vec3 0 0 (- 1) \<and>
      Up c' = vec3 0 1 0 \<and> Zoom c' = 1) \<and>
   (\<exists>v' sh'. PrepareSceneView glm_terms camera_axes 1 (\<lambda>k. k = GLFW_KEY_P \<or> k = GLFW_KEY_O)
        (ViewManager_new (Some ([] :: mat4 ShaderManager)) camera_origin) = Inr v' \<and>
      ViewManager.m_pShaderManager v' = Some sh' \<and>
      uniform_value sh' ''projection'' =
        Some (Mat4Value (Ortho (- (25 / 4)) (25 / 4) (- 5) 5 (1 / 10) 100)))"
proof -
  let ?v = "ViewManager_new (Some ([] :: mat4 ShaderManager)) camera_origin"
  let ?c = "camera_origin\<lparr>Position := vec3 0.0 5.5 8.0, Front := vec3 0.0 (- 0.5) (- 2.0),
                               Up := vec3 0.0 1.0 0.0, Zoom := 80\<rparr>"
  let ?P = "\<lambda>k. k = GLFW_KEY_P \<or> k = GLFW_KEY_W"
  let ?O = "\<lambda>k. k = GLFW_KEY_P \<or> k = GLFW_KEY_O"
  have h: "g_pCamera ?v = Some ?c" by (simp add: ViewManager_new_def)
  have s: "ViewManager.m_pShaderManager ?v = Some []" by (simp add: ViewManager_new_def)
  have p: "?P GLFW_KEY_P \<and> \<not> ?P GLFW_KEY_O" by simp
  have o: "?O GLFW_KEY_O" by simp
  note TP = projection_presets [OF h, of ?P camera_axes "[]" glm_terms 1]
  note TO = projection_presets [OF h, of ?O camera_axes "[]" glm_terms 1]
  note A = TP [THEN conjunct1, THEN mp, OF p]
  note B = TO [THEN conjunct2, THEN conjunct1, THEN mp, OF o]
  from TO [THEN conjunct2, THEN conjunct2, THEN mp, OF s] obtain v' c' sh' where
    v': "PrepareSceneView glm_terms camera_axes 1 ?O ?v = Inr v'"
      "ViewManager.m_pShaderManager v' = Some sh'"
      "bOrthographicProjection v' = bOrthographicProjection (ProcessKeyboardEvents camera_axes ?O
            (?v\<lparr>gDeltaTime := 1 - gLastFrame ?v, gLastFrame := 1\<rparr>))"
      "uniform_value sh' ''projection'' = Some (Mat4Value
           (if bOrthographicProjection v'
            then glm_ortho glm_terms (- 6.25) 6.25 (- 5) 5 0.1 100
            else glm_perspective glm_terms (glm_radians glm_terms (Zoom c')) (1000 / 800) 0.1 100))"
      "g_pCamera v' = Some c'"
    by blast
  have "bOrthographicProjection (ProcessKeyboardEvents camera_axes ?O
            (?v\<lparr>gDeltaTime := 1 - gLastFrame ?v, gLastFrame := 1\<rparr>))"
    by (simp add: ViewManager_new_def ProcessKeyboardEvents_def Let_def)
  with v'(3) have "bOrthographicProjection v'" by simp
  with v'(4) have "uniform_value sh' ''projection'' =
        Some (Mat4Value (Ortho (- (25 / 4)) (25 / 4) (- 5) 5 (1 / 10) 100))"
    by (simp add: glm_terms_def)
  with v'(1,2) have C: "\<exists>v' sh'. PrepareSceneView glm_terms camera_axes 1 ?O ?v = Inr v' \<and>
      ViewManager.m_pShaderManager v' = Some sh' \<and>
      uniform_value sh' ''projection'' =
        Some (Mat4Value (Ortho (- (25 / 4)) (25 / 4) (- 5) 5 (1 / 10) 100))"
    by blast
  show ?thesis
    apply (intro conjI)
       apply (rule h)
      apply (rule A)
     apply (rule B)
    apply (rule C)
    done
qed

section \<open>Properties of the texture registry\<close>

lemma CreateGLTexture_not_decoded:
  "stbi_load filename = None \<Longrightarrow>
   CreateGLTexture stbi_load filename tg s = Inr (False, cout (Could_not_load_image filename) s)"
  by (simp add: CreateGLTexture_def)

lemma CreateGLTexture_other_channels:
  "stbi_load filename = Some img \<Longrightarrow> colorChannels img \<noteq> 3 \<Longrightarrow> colorChannels img \<noteq> 4 \<Longrightarrow>
   \<exists>s'. CreateGLTexture stbi_load filename tg s = Inr (False, s') \<and>
     m_loadedTextures s' = m_loadedTextures s \<and> m_textureIDs s' = m_textureIDs s"
  by (simp add: CreateGLTexture_def glGenTextures_def gl_def cout_def Let_def)

lemma CreateGLTexture_registers:
  "stbi_load filename = Some img \<Longrightarrow> colorChannels img = 3 \<or> colorChannels img = 4 \<Longrightarrow>
   in_array (m_loadedTextures s) s \<Longrightarrow>
   \<exists>s'. CreateGLTexture stbi_load filename tg s = Inr (True, s') \<and>
     m_loadedTextures s' = m_loadedTextures s + 1 \<and>
     m_textureIDs s' = (m_textureIDs s)[nat (m_loadedTextures s) :=
        \<lparr>tag = tg, ID = gl_names s (gl_generated s)\<rparr>]"
  by (auto simp: CreateGLTexture_def glGenTextures_def gl_def cout_def Let_def in_array_def)

lemma CreateGLTexture_overrun:
  "stbi_load filename = Some img \<Longrightarrow> colorChannels img = 3 \<or> colorChannels img = 4 \<Longrightarrow>
   \<not> in_array (m_loadedTextures s) s \<Longrightarrow>
   CreateGLTexture stbi_load filename tg s = Inl ArrayOverrun"
  by (auto simp: CreateGLTexture_def glGenTextures_def gl_def cout_def Let_def in_array_def)

lemma CreateGLTexture_cases:
  obtains (not_decoded) "stbi_load filename = None"
      "CreateGLTexture stbi_load filename tg s = Inr (False, cout (Could_not_load_image filename) s)"
  | (other_channels) s' where "\<not> loads stbi_load filename"
      "CreateGLTexture stbi_load filename tg s = Inr (False, s')"
      "m_loadedTextures s' = m_loadedTextures s" "m_textureIDs s' = m_textureIDs s"
  | (registers) s' where "loads stbi_load filename" "in_array (m_loadedTextures s) s"
      "CreateGLTexture stbi_load filename tg s = Inr (True, s')"
      "m_loadedTextures s' = m_loadedTextures s + 1"
      "m_textureIDs s' = (m_textureIDs s)[nat (m_loadedTextures s) :=
        \<lparr>tag = tg, ID = gl_names s (gl_generated s)\<rparr>]"
  | (overrun) "loads stbi_load filename" "\<not> in_array (m_loadedTextures s) s"
      "CreateGLTexture stbi_load filename tg s = Inl ArrayOverrun"
proof (cases "stbi_load filename")
  case None
  then show ?thesis using not_decoded [OF None CreateGLTexture_not_decoded [of stbi_load filename tg s, OF None]] by simp
next
  case (Some img)
  show ?thesis
  proof (cases "colorChannels img = 3 \<or> colorChannels img = 4")
    case False
    then have "\<not> loads stbi_load filename" using Some by (simp add: loads_def)
    moreover from False have "colorChannels img \<noteq> 3" "colorChannels img \<noteq> 4" by simp_all
    from CreateGLTexture_other_channels [where stbi_load = stbi_load and filename = filename and img = img and tg = tg and s = s, OF Some this]
    obtain s' where "CreateGLTexture stbi_load filename tg s = Inr (False, s')"
      "m_loadedTextures s' = m_loadedTextures s" "m_textureIDs s' = m_textureIDs s" by blast
    ultimately show ?thesis using other_channels by blast
  next
    case True
    then have l: "loads stbi_load filename" using Some by (simp add: loads_def)
    show ?thesis
    proof (cases "in_array (m_loadedTextures s) s")
      case False
      with l CreateGLTexture_overrun [where stbi_load = stbi_load and filename = filename and img = img and tg = tg and s = s, OF Some True False] show ?thesis using overrun by blast
    next
      case ia: True
      from CreateGLTexture_registers [where stbi_load = stbi_load and filename = filename and img = img and tg = tg and s = s, OF Some True ia]
      obtain s' where "CreateGLTexture stbi_load filename tg s = Inr (True, s')"
        "m_loadedTextures s' = m_loadedTextures s + 1"
        "m_textureIDs s' = (m_textureIDs s)[nat (m_loadedTextures s) :=
          \<lparr>tag = tg, ID = gl_names s (gl_generated s)\<rparr>]" by blast
      with l ia show ?thesis using registers by blast
    qed
  qed
qed

lemma registered_tags_same:
  "m_loadedTextures s' = m_loadedTextures s \<Longrightarrow> m_textureIDs s' = m_textureIDs s \<Longrightarrow>
   registered_tags s' = registered_tags s"
  by (simp add: registered_tags_def)





lemma gl_gl: "gl cs (gl cs' s) = gl (cs' @ cs) s"
  by (simp add: gl_def)


lemma BindGLTextures_for_result:
  "BindGLTextures_for i s = Inr s' \<Longrightarrow> \<exists>cs. s' = gl cs s"
proof (induction i s rule: BindGLTextures_for.induct)
  case (1 i s)
  show ?case
  proof (cases "int i < m_loadedTextures s")
    case False
    with "1.prems" have "s' = gl [] s"
      by (subst (asm) BindGLTextures_for.simps) (simp add: gl_def)
    then show ?thesis by blast
  next
    case True
    show ?thesis
    proof (cases "in_array (int i) s")
      case False
      with True "1.prems" show ?thesis
        by (subst (asm) BindGLTextures_for.simps) simp
    next
      case ia: True
      let ?s1 = "gl [ActiveTexture (int i), BindTexture (ID (m_textureIDs s ! i))] s"
      from True ia "1.prems" have "BindGLTextures_for (i + 1) ?s1 = Inr s'"
        by (subst (asm) BindGLTextures_for.simps) simp
      from "1.IH" [OF True ia this] obtain cs where "s' = gl cs ?s1" by blast
      then have "s' = gl ([ActiveTexture (int i), BindTexture (ID (m_textureIDs s ! i))] @ cs) s"
        by (simp add: gl_gl)
      then show ?thesis by blast
    qed
  qed
qed


lemma DestroyGLTextures_for_step:
  "int i < m_loadedTextures s \<Longrightarrow> in_array (int i) s \<Longrightarrow>
   DestroyGLTextures_for i s = DestroyGLTextures_for (i + 1) (regenerate i s)"
  by (subst DestroyGLTextures_for.simps) (simp add: glGenTextures_def regenerate_def Let_def)

lemma DestroyGLTextures_for_stop:
  "\<not> int i < m_loadedTextures s \<Longrightarrow> DestroyGLTextures_for i s = Inr s"
  by (subst DestroyGLTextures_for.simps) simp

lemma DestroyGLTextures_for_overrun:
  "int i < m_loadedTextures s \<Longrightarrow> \<not> in_array (int i) s \<Longrightarrow>
   DestroyGLTextures_for i s = Inl ArrayOverrun"
  by (subst DestroyGLTextures_for.simps) simp

lemma DestroyGLTextures_for_induct [consumes 0, case_names stop overrun step]:
  assumes "\<And>i s. \<not> int i < m_loadedTextures s \<Longrightarrow> P i s"
    and "\<And>i s. int i < m_loadedTextures s \<Longrightarrow> \<not> in_array (int i) s \<Longrightarrow> P i s"
    and "\<And>i s. int i < m_loadedTextures s \<Longrightarrow> in_array (int i) s \<Longrightarrow>
           P (i + 1) (regenerate i s) \<Longrightarrow> P i s"
  shows "P i (s :: 'm SceneManager)"
proof (induction i s rule: DestroyGLTextures_for.induct)
  case (1 i s)
  show ?case
  proof (cases "int i < m_loadedTextures s")
    case False
    then show ?thesis by (rule assms(1))
  next
    case True
    show ?thesis
    proof (cases "in_array (int i) s")
      case False
      with True show ?thesis by (rule assms(2))
    next
      case ia: True
      have "P (i + 1) (regenerate i s)"
        using "1.IH" [OF True ia, of "glGenTextures s" "fst (glGenTextures s)" "snd (glGenTextures s)"]
        by (simp add: glGenTextures_def regenerate_def Let_def)
      with True ia show ?thesis by (rule assms(3))
    qed
  qed
qed


lemma map_tag_update:
  "i < length xs \<Longrightarrow> map tag (xs[i := (xs ! i)\<lparr>ID := name\<rparr>]) = map tag xs"
  by (simp add: map_update list_update_same_conv)

lemma DestroyGLTextures_for_frame:
  "DestroyGLTextures_for i s = Inr s' \<Longrightarrow>
   m_loadedTextures s' = m_loadedTextures s \<and>
   length (m_textureIDs s') = length (m_textureIDs s) \<and>
   map tag (m_textureIDs s') = map tag (m_textureIDs s) \<and>
   gl_names s' = gl_names s \<and> m_pShaderManager s' = m_pShaderManager s \<and>
   m_objectMaterials s' = m_objectMaterials s \<and> m_basicMeshes s' = m_basicMeshes s \<and>
   console s' = console s"
proof (induction i s rule: DestroyGLTextures_for_induct)
  case (stop i s)
  then show ?case by (simp add: DestroyGLTextures_for_stop)
next
  case (overrun i s)
  then show ?case by (simp add: DestroyGLTextures_for_overrun)
next
  case (step i s)
  from step.prems step.hyps have "DestroyGLTextures_for (i + 1) (regenerate i s) = Inr s'"
    by (simp add: DestroyGLTextures_for_step)
  from step.IH [OF this] step.hyps(2) show ?case
    by (simp add: regenerate_def in_array_def map_tag_update)
qed

lemma DestroyGLTextures_for_total:
  "m_loadedTextures s \<le> int (length (m_textureIDs s)) \<Longrightarrow>
   \<exists>s'. DestroyGLTextures_for i s = Inr s'"
proof (induction i s rule: DestroyGLTextures_for_induct)
  case (stop i s)
  then show ?case by (simp add: DestroyGLTextures_for_stop)
next
  case (overrun i s)
  then show ?case by (simp add: in_array_def)
next
  case (step i s)
  from step.prems have "m_loadedTextures (regenerate i s) \<le> int (length (m_textureIDs (regenerate i s)))"
    by (simp add: regenerate_def)
  from step.IH [OF this] step.hyps show ?case by (simp add: DestroyGLTextures_for_step)
qed

lemma DestroyGLTextures_for_names:
  "DestroyGLTextures_for i s = Inr s' \<Longrightarrow>
   (\<forall>j. i \<le> j \<and> int j < m_loadedTextures s \<longrightarrow>
      ID (m_textureIDs s' ! j) = gl_names s (gl_generated s + (j - i))) \<and>
   (\<forall>j. j < i \<or> m_loadedTextures s \<le> int j \<longrightarrow> m_textureIDs s' ! j = m_textureIDs s ! j) \<and>
   gl_calls s' = gl_calls s @
     map (\<lambda>j. GenTextures (gl_names s (gl_generated s + (j - i)))) [i..<nat (m_loadedTextures s)] \<and>
   gl_generated s' = gl_generated s + (nat (m_loadedTextures s) - i)"
proof (induction i s rule: DestroyGLTextures_for_induct)
  case (stop i s)
  then show ?case by (auto simp: DestroyGLTextures_for_stop)
next
  case (overrun i s)
  then show ?case by (simp add: DestroyGLTextures_for_overrun)
next
  case (step i s)
  let ?s1 = "regenerate i s"
  let ?n = "nat (m_loadedTextures s)"
  from step.hyps have il: "i < length (m_textureIDs s)" and i_n: "i < ?n"
    by (auto simp: in_array_def)
  from step.prems step.hyps have "DestroyGLTextures_for (i + 1) ?s1 = Inr s'"
    by (simp add: DestroyGLTextures_for_step)
  note IH = step.IH [OF this]
  have n1: "m_loadedTextures ?s1 = m_loadedTextures s" "gl_names ?s1 = gl_names s"
    "gl_generated ?s1 = Suc (gl_generated s)" by (simp_all add: regenerate_def)
  have ids: "ID (m_textureIDs s' ! j) = gl_names s (gl_generated s + (j - i))"
    if "i \<le> j \<and> int j < m_loadedTextures s" for j
  proof (cases "j = i")
    case True
    from IH have "m_textureIDs s' ! i = m_textureIDs ?s1 ! i" by simp
    with il True show ?thesis by (simp add: regenerate_def)
  next
    case False
    with that have "i + 1 \<le> j \<and> int j < m_loadedTextures ?s1" by (simp add: n1)
    with IH have a: "ID (m_textureIDs s' ! j) = gl_names ?s1 (gl_generated ?s1 + (j - (i + 1)))"
      by blast
    have b: "gl_generated ?s1 + (j - (i + 1)) = gl_generated s + (j - i)"
      using that False n1(3) by arith
    show ?thesis by (simp only: a b n1(2))
  qed
  have same: "m_textureIDs s' ! j = m_textureIDs s ! j"
    if "j < i \<or> m_loadedTextures s \<le> int j" for j
  proof -
    from that step.hyps(1) have ne: "j \<noteq> i" by auto
    from that have "j < i + 1 \<or> m_loadedTextures ?s1 \<le> int j" by (auto simp: n1)
    with IH have "m_textureIDs s' ! j = m_textureIDs ?s1 ! j" by blast
    with ne show ?thesis by (simp add: regenerate_def)
  qed
  have "map (\<lambda>j. GenTextures (gl_names ?s1 (gl_generated ?s1 + (j - (i + 1))))) [i + 1..<?n]
      = map (\<lambda>j. GenTextures (gl_names s (gl_generated s + (j - i)))) [i + 1..<?n]"
  proof (rule map_cong [OF refl])
    fix x assume "x \<in> set [i + 1..<?n]"
    then have "i + 1 \<le> x" by simp
    then have "gl_generated ?s1 + (x - (i + 1)) = gl_generated s + (x - i)"
      using n1(3) by arith
    then show "GenTextures (gl_names ?s1 (gl_generated ?s1 + (x - (i + 1)))) =
        GenTextures (gl_names s (gl_generated s + (x - i)))"
      by (simp only: n1(2))
  qed
  moreover have "[i..<?n] = i # [i + 1..<?n]" using i_n by (simp add: upt_conv_Cons)
  moreover from IH have "gl_calls s' = gl_calls ?s1 @
     map (\<lambda>j. GenTextures (gl_names ?s1 (gl_generated ?s1 + (j - (i + 1)))))
       [i + 1..<nat (m_loadedTextures ?s1)]" by blast
  ultimately have calls: "gl_calls s' = gl_calls s @
     map (\<lambda>j. GenTextures (gl_names s (gl_generated s + (j - i)))) [i..<?n]"
    by (simp add: n1 regenerate_def)
  from IH have "gl_generated s' = gl_generated ?s1 + (nat (m_loadedTextures ?s1) - (i + 1))"
    by blast
  with i_n have gen: "gl_generated s' = gl_generated s + (?n - i)" by (simp add: n1)
  from ids same calls gen show ?case by blast
qed

lemma entries_kept_same:
  "m_loadedTextures s' = m_loadedTextures s \<Longrightarrow> map tag (m_textureIDs s') = map tag (m_textureIDs s) \<Longrightarrow>
   entries_kept s s'"
proof -
  assume n: "m_loadedTextures s' = m_loadedTextures s"
    and t: "map tag (m_textureIDs s') = map tag (m_textureIDs s)"
  from t have l: "length (m_textureIDs s') = length (m_textureIDs s)" by (rule map_eq_imp_length_eq)
  have "tag (m_textureIDs s' ! i) = tag (m_textureIDs s ! i)" if "i < length (m_textureIDs s)" for i
  proof -
    from that l have "map tag (m_textureIDs s') ! i = tag (m_textureIDs s' ! i)" by simp
    moreover from that have "map tag (m_textureIDs s) ! i = tag (m_textureIDs s ! i)" by simp
    ultimately show ?thesis using t by simp
  qed
  with n l show ?thesis by (simp add: entries_kept_def)
qed

lemma entries_kept_trans:
  "entries_kept s s1 \<Longrightarrow> entries_kept s1 s2 \<Longrightarrow> entries_kept s s2"
  by (auto simp: entries_kept_def)

lemma CreateGLTexture_effect:
  "CreateGLTexture stbi_load filename tg s = Inr (b, s') \<Longrightarrow>
   (if b then loads stbi_load filename \<and> in_array (m_loadedTextures s) s \<and>
         m_loadedTextures s' = m_loadedTextures s + 1 \<and>
         m_textureIDs s' = (m_textureIDs s)[nat (m_loadedTextures s) :=
            \<lparr>tag = tg, ID = gl_names s (gl_generated s)\<rparr>]
    else \<not> loads stbi_load filename \<and> m_loadedTextures s' = m_loadedTextures s \<and>
         m_textureIDs s' = m_textureIDs s)"
proof (cases rule: CreateGLTexture_cases [of stbi_load filename tg s])
  case not_decoded
  assume "CreateGLTexture stbi_load filename tg s = Inr (b, s')"
  with not_decoded show ?thesis by (auto simp: loads_def cout_def)
next
  case (other_channels t)
  assume "CreateGLTexture stbi_load filename tg s = Inr (b, s')"
  with other_channels show ?thesis by auto
next
  case (registers t)
  assume "CreateGLTexture stbi_load filename tg s = Inr (b, s')"
  with registers show ?thesis by auto
next
  case overrun
  assume "CreateGLTexture stbi_load filename tg s = Inr (b, s')"
  with overrun show ?thesis by simp
qed

lemma CreateGLTexture_kept:
  assumes "CreateGLTexture stbi_load filename tg s = Inr (b, s')"
  shows "entries_kept s s'"
proof (cases b)
  case False
  with CreateGLTexture_effect [OF assms] show ?thesis by (simp add: entries_kept_def)
next
  case True
  with CreateGLTexture_effect [OF assms] have
    e: "m_loadedTextures s' = m_loadedTextures s + 1"
      "m_textureIDs s' = (m_textureIDs s)[nat (m_loadedTextures s) :=
            \<lparr>tag = tg, ID = gl_names s (gl_generated s)\<rparr>]" by simp_all
  from e show ?thesis by (auto simp: entries_kept_def nth_list_update)
qed

lemma CreateGLTexture_each_kept:
  "CreateGLTexture_each stbi_load files b0 s = Inr (b, s') \<Longrightarrow> entries_kept s s'"
proof (induction files arbitrary: s b0)
  case Nil
  then show ?case by (simp add: entries_kept_def)
next
  case (Cons p files)
  obtain filename tg where p: "p = (filename, tg)" by (cases p)
  from Cons.prems p obtain b1 s1 where
    s1: "CreateGLTexture stbi_load filename tg s = Inr (b1, s1)"
    and rest: "CreateGLTexture_each stbi_load files b1 s1 = Inr (b, s')"
    by (auto split: sum.splits)
  from CreateGLTexture_kept [OF s1] Cons.IH [OF rest] show ?case by (rule entries_kept_trans)
qed

lemma BindGLTextures_kept:
  "BindGLTextures s = Inr s' \<Longrightarrow>
   m_loadedTextures s' = m_loadedTextures s \<and> m_textureIDs s' = m_textureIDs s"
proof -
  assume "BindGLTextures s = Inr s'"
  then have "BindGLTextures_for 0 s = Inr s'" by (simp add: BindGLTextures_def)
  from BindGLTextures_for_result [OF this] obtain cs where "s' = gl cs s" by blast
  then show ?thesis by (simp add: gl_def)
qed

lemma LoadSceneTextures_kept:
  assumes "LoadSceneTextures stbi_load s = Inr s'"
  shows "entries_kept s s'"
proof -
  from assms obtain b s1 where
    s1: "CreateGLTexture_each stbi_load scene_textures False s = Inr (b, s1)"
    and bind: "BindGLTextures s1 = Inr s'"
    by (auto simp: LoadSceneTextures_def split: sum.splits)
  from BindGLTextures_kept [OF bind] have "entries_kept s1 s'" by (simp add: entries_kept_def)
  with CreateGLTexture_each_kept [OF s1] show ?thesis by (rule entries_kept_trans)
qed

lemma scene_call_other:
  assumes "scene_call ld g c s = Inr s'" "\<not> is_load_call c"
  shows "m_loadedTextures s' = m_loadedTextures s \<and>
     map tag (m_textureIDs s') = map tag (m_textureIDs s)"
proof (cases c)
  case Call_BindGLTextures
  with assms BindGLTextures_kept [of s s'] show ?thesis by simp
next
  case Call_DestroyGLTextures
  with assms have "DestroyGLTextures_for 0 s = Inr s'" by (simp add: DestroyGLTextures_def)
  from DestroyGLTextures_for_frame [OF this] show ?thesis by simp
next
  case (Call_SetShaderTexture tg)
  with assms show ?thesis
    by (auto simp: SetShaderTexture_def Let_def split: option.splits sum.splits)
next
  case (Call_SetShaderMaterial tg material)
  with assms show ?thesis
    by (auto simp: SetShaderMaterial_def Let_def split: option.splits if_splits prod.splits)
qed (use assms in \<open>auto simp: is_load_call_def SetTransformations_def SetShaderColor_def
      SetTextureUVScale_def DefineObjectMaterials_def Let_def split: option.splits sum.splits\<close>)

lemma scene_call_kept:
  assumes "scene_call ld g c s = Inr s'"
  shows "entries_kept s s'"
proof (cases "is_load_call c")
  case False
  from scene_call_other [OF assms False] show ?thesis by (simp add: entries_kept_same)
next
  case True
  then show ?thesis
  proof (cases c)
    case (Call_CreateGLTexture filename tg)
    with assms obtain b where "CreateGLTexture ld filename tg s = Inr (b, s')"
      by (auto split: sum.splits)
    then show ?thesis by (rule CreateGLTexture_kept)
  next
    case Call_LoadSceneTextures
    with assms show ?thesis by (simp add: LoadSceneTextures_kept)
  qed (simp_all add: is_load_call_def)
qed

lemma scene_calls_kept:
  "scene_calls ld g cs s = Inr s' \<Longrightarrow> entries_kept s s'"
proof (induction cs arbitrary: s)
  case Nil
  then show ?case by (simp add: entries_kept_def)
next
  case (Cons c cs)
  from Cons.prems obtain s1 where s1: "scene_call ld g c s = Inr s1"
    and rest: "scene_calls ld g cs s1 = Inr s'" by (auto split: sum.splits)
  from scene_call_kept [OF s1] Cons.IH [OF rest] show ?case by (rule entries_kept_trans)
qed



text \<open>
  C10. With the count within the array, \<open>DestroyGLTextures\<close> returns with the count, the
  capacity and every tag as before; the entry at each index \<open>j\<close> below the count has as its
  \<open>ID\<close> the name written by the \<open>j\<close>-th call of \<open>glGenTextures\<close> the loop makes; the entries
  from the count on are as before; and the OpenGL calls it makes are these calls of
  \<open>glGenTextures\<close> and no other, so no texture is deleted.
\<close>

theorem DestroyGLTextures_regenerates:
  "registry_ok s \<Longrightarrow>
   \<exists>s'. DestroyGLTextures s = Inr s' \<and>
     m_loadedTextures s' = m_loadedTextures s \<and>
     length (m_textureIDs s') = length (m_textureIDs s) \<and>
     map tag (m_textureIDs s') = map tag (m_textureIDs s) \<and>
     (\<forall>j. int j < m_loadedTextures s \<longrightarrow>
        ID (m_textureIDs s' ! j) = gl_names s (gl_generated s + j)) \<and>
     (\<forall>j. m_loadedTextures s \<le> int j \<longrightarrow> m_textureIDs s' ! j = m_textureIDs s ! j) \<and>
     gl_calls s' = gl_calls s @
       map (\<lambda>j. GenTextures (gl_names s (gl_generated s + j))) [0..<nat (m_loadedTextures s)]"
proof -
  assume "registry_ok s"
  then have "m_loadedTextures s \<le> int (length (m_textureIDs s))" by (simp add: registry_ok_def)
  from DestroyGLTextures_for_total [OF this, of 0] obtain s' where
    s': "DestroyGLTextures_for 0 s = Inr s'" by blast
  note F = DestroyGLTextures_for_frame [OF s'] and N = DestroyGLTextures_for_names [OF s']
  have "DestroyGLTextures s = Inr s'" using s' by (simp add: DestroyGLTextures_def)
  moreover have "\<forall>j. int j < m_loadedTextures s \<longrightarrow>
        ID (m_textureIDs s' ! j) = gl_names s (gl_generated s + j)" using N by simp
  moreover have "\<forall>j. m_loadedTextures s \<le> int j \<longrightarrow> m_textureIDs s' ! j = m_textureIDs s ! j"
    using N by simp
  moreover have "gl_calls s' = gl_calls s @
       map (\<lambda>j. GenTextures (gl_names s (gl_generated s + j))) [0..<nat (m_loadedTextures s)]"
    using N by simp
  ultimately show ?thesis using F by blast
qed

theorem DestroyGLTextures_regenerates_witness:
  "registry_ok scene_two \<and>
   (\<exists>s'. DestroyGLTextures scene_two = Inr s' \<and> m_loadedTextures s' = 2 \<and>
      map tag (m_textureIDs s') = [''wood'', ''wood'', [], []] \<and>
      ID (m_textureIDs s' ! 0) = 10 \<and> ID (m_textureIDs s' ! 1) = 11 \<and>
      m_textureIDs s' ! 2 = \<lparr>tag = [], ID = 0\<rparr> \<and>
      gl_calls s' = [GenTextures 10, GenTextures 11])"
proof -
  have ok: "registry_ok scene_two" by (simp add: scene_two_def registry_ok_def)
  from DestroyGLTextures_regenerates [OF ok] obtain s' where
    s': "DestroyGLTextures scene_two = Inr s' \<and>
     m_loadedTextures s' = m_loadedTextures scene_two \<and>
     length (m_textureIDs s') = length (m_textureIDs scene_two) \<and>
     map tag (m_textureIDs s') = map tag (m_textureIDs scene_two) \<and>
     (\<forall>j. int j < m_loadedTextures scene_two \<longrightarrow>
        ID (m_textureIDs s' ! j) = gl_names scene_two (gl_generated scene_two + j)) \<and>
     (\<forall>j. m_loadedTextures scene_two \<le> int j \<longrightarrow>
        m_textureIDs s' ! j = m_textureIDs scene_two ! j) \<and>
     gl_calls s' = gl_calls scene_two @
       map (\<lambda>j. GenTextures (gl_names scene_two (gl_generated scene_two + j)))
         [0..<nat (m_loadedTextures scene_two)]" ..
  note r = s' [THEN conjunct1]
  note n = s' [THEN conjunct2, THEN conjunct1]
  note t = s' [THEN conjunct2, THEN conjunct2, THEN conjunct2, THEN conjunct1]
  note i = s' [THEN conjunct2, THEN conjunct2, THEN conjunct2, THEN conjunct2, THEN conjunct1]
  note u = s' [THEN conjunct2, THEN conjunct2, THEN conjunct2, THEN conjunct2, THEN conjunct2,
      THEN conjunct1]
  note c = s' [THEN conjunct2, THEN conjunct2, THEN conjunct2, THEN conjunct2, THEN conjunct2,
      THEN conjunct2]
  from n have a: "m_loadedTextures s' = 2" by (simp add: scene_two_def)
  from t have b: "map tag (m_textureIDs s') = [''wood'', ''wood'', [], []]"
    by (simp add: scene_two_def)
  from i [rule_format, of 0] have c0: "ID (m_textureIDs s' ! 0) = 10" by (simp add: scene_two_def)
  from i [rule_format, of 1] have c1: "ID (m_textureIDs s' ! 1) = 11" by (simp add: scene_two_def)
  from u [rule_format, of 2] have e: "m_textureIDs s' ! 2 = \<lparr>tag = [], ID = 0\<rparr>"
    by (simp add: scene_two_def)
  have "nat (m_loadedTextures scene_two) = Suc (Suc 0)" by (simp add: scene_two_def)
  then have "[0..<nat (m_loadedTextures scene_two)] = [0, Suc 0]" by simp
  with c have f: "gl_calls s' = [GenTextures 10, GenTextures 11]" by (simp add: scene_two_def)
  show ?thesis
    using ok r a b c0 c1 e f by (intro conjI exI [of _ s']) assumption+
qed

text \<open>
  C7. After any sequence of scene manager calls that runs to its end the count has not
  decreased, the capacity is the same and every entry that was stored has its tag. A call
  other than \<open>CreateGLTexture\<close> and its caller \<open>LoadSceneTextures\<close> leaves the count and all
  tags as they were. \<open>CreateGLTexture\<close> either returns \<open>false\<close> and leaves count and array as
  they were, or returns \<open>true\<close>, writes the new entry at the index of the old count and adds
  one to the count.
\<close>

theorem registry_entries_never_removed:
  "(scene_calls ld g cs s = Inr s' \<longrightarrow>
      m_loadedTextures s \<le> m_loadedTextures s' \<and>
      length (m_textureIDs s') = length (m_textureIDs s) \<and>
      (\<forall>i. int i < m_loadedTextures s \<and> i < length (m_textureIDs s) \<longrightarrow>
         tag (m_textureIDs s' ! i) = tag (m_textureIDs s ! i))) \<and>
   (scene_call ld g c t = Inr t' \<and> \<not> is_load_call c \<longrightarrow>
      m_loadedTextures t' = m_loadedTextures t \<and>
      map tag (m_textureIDs t') = map tag (m_textureIDs t)) \<and>
   (CreateGLTexture ld filename tg t = Inr (b, t') \<longrightarrow>
      (if b then in_array (m_loadedTextures t) t \<and>
            m_loadedTextures t' = m_loadedTextures t + 1 \<and>
            m_textureIDs t' = (m_textureIDs t)[nat (m_loadedTextures t) :=
               \<lparr>tag = tg, ID = gl_names t (gl_generated t)\<rparr>]
       else m_loadedTextures t' = m_loadedTextures t \<and> m_textureIDs t' = m_textureIDs t))"
proof (intro conjI impI)
  assume "scene_calls ld g cs s = Inr s'"
  then have "entries_kept s s'" by (rule scene_calls_kept)
  then show "m_loadedTextures s \<le> m_loadedTextures s'"
    and "length (m_textureIDs s') = length (m_textureIDs s)"
    and "\<forall>i. int i < m_loadedTextures s \<and> i < length (m_textureIDs s) \<longrightarrow>
         tag (m_textureIDs s' ! i) = tag (m_textureIDs s ! i)"
    by (simp_all add: entries_kept_def)
next
  assume a: "scene_call ld g c t = Inr t' \<and> \<not> is_load_call c"
  then have "scene_call ld g c t = Inr t'" "\<not> is_load_call c" by simp_all
  from scene_call_other [OF this] show "m_loadedTextures t' = m_loadedTextures t"
    and "map tag (m_textureIDs t') = map tag (m_textureIDs t)" by simp_all
next
  assume "CreateGLTexture ld filename tg t = Inr (b, t')"
  from CreateGLTexture_effect [OF this] show
    "if b then in_array (m_loadedTextures t) t \<and>
            m_loadedTextures t' = m_loadedTextures t + 1 \<and>
            m_textureIDs t' = (m_textureIDs t)[nat (m_loadedTextures t) :=
               \<lparr>tag = tg, ID = gl_names t (gl_generated t)\<rparr>]
       else m_loadedTextures t' = m_loadedTextures t \<and> m_textureIDs t' = m_textureIDs t"
    by (simp split: if_splits)
qed

theorem registry_entries_never_removed_witness:
  "\<exists>s'. scene_calls two_files glm_terms
          [Call_CreateGLTexture ''rgb.jpg'' ''floor'', Call_DestroyGLTextures] scene_two = Inr s' \<and>
     m_loadedTextures scene_two = 2 \<and> m_loadedTextures s' = 3 \<and>
     length (m_textureIDs s') = 4 \<and>
     tag (m_textureIDs s' ! 0) = ''wood'' \<and> tag (m_textureIDs s' ! 1) = ''wood''"
proof -
  let ?cs = "[Call_CreateGLTexture ''rgb.jpg'' ''floor'', Call_DestroyGLTextures]"
  have "\<exists>s'. scene_calls two_files glm_terms ?cs scene_two = Inr s' \<and> m_loadedTextures s' = 3"
    by (simp add: scene_two_def CreateGLTexture_def two_files_def cout_def gl_def
        glGenTextures_def in_array_def Let_def DestroyGLTextures_def
        DestroyGLTextures_for.simps)
  then obtain s' where run: "scene_calls two_files glm_terms ?cs scene_two = Inr s'"
    and n': "m_loadedTextures s' = 3" by (elim exE conjE)
  note T = registry_entries_never_removed [of two_files glm_terms ?cs scene_two s',
      THEN conjunct1, THEN mp, OF run]
  have n: "m_loadedTextures scene_two = 2" by (simp add: scene_two_def)
  from T have l: "length (m_textureIDs s') = 4" by (simp add: scene_two_def)
  from T [THEN conjunct2, THEN conjunct2, rule_format, of 0]
  have t0: "tag (m_textureIDs s' ! 0) = ''wood''" by (simp add: scene_two_def)
  from T [THEN conjunct2, THEN conjunct2, rule_format, of 1]
  have t1: "tag (m_textureIDs s' ! 1) = ''wood''" by (simp add: scene_two_def)
  show ?thesis
    using run n n' l t0 t1 by (intro exI [of _ s'] conjI) assumption+
qed

end
